theory Spec2Isabelle
  imports Complex_Main
begin

section \<open>The process wrapper: auv\_motion\_simple\_node.cpp\<close>

text \<open>
  The wrapper's \<^verbatim>\<open>main\<close> reads two private parameters, constructs one
  \<^verbatim>\<open>AUVMotionModel\<close>, calls \<^verbatim>\<open>init()\<close> on it, creates two periodic timers bound
  to that object and then spins. The runtime (parameter server, timers, spinner) is
  external; it is modelled by the small amount of state that \<^verbatim>\<open>main\<close> touches.
\<close>

subsection \<open>Parameters\<close>

text \<open>
  \<^verbatim>\<open>nh.param<double>(key, var, default)\<close>: the stored value when the key is set,
  the default otherwise.
\<close>

definition param :: "(string \<rightharpoonup> real) \<Rightarrow> string \<Rightarrow> real \<Rightarrow> real" where
  "param ps key dflt = (case ps key of Some v \<Rightarrow> v | None \<Rightarrow> dflt)"

subsection \<open>State of the node\<close>

text \<open>
  Modelled from the spec: the states of the motion model (section 4.4).
\<close>

datatype mm_state = Uninitialized | Running

datatype callback = UpdateMotion | UpdateMeas

record timer =
  period :: real
  handler :: callback
  target :: nat

record world =
  ok :: bool
  models :: "nat \<rightharpoonup> mm_state"
  timers :: "timer list"

definition world0 :: world where
  "world0 = \<lparr>ok = False, models = Map.empty, timers = []\<rparr>"

subsection \<open>Statements of main\<close>

datatype stmt =
    RosInit string
  | NodeHandle string
  | Construct nat
  | Init nat
  | CreateTimer real callback nat
  | Spin
  | WaitForShutdown
  | DeleteIfNotOk nat
  | RosInfo string

text \<open>The address of the object that \<^verbatim>\<open>new AUVMotionModel\<close> returns.\<close>

definition auv_mm :: nat where
  "auv_mm = 0"

text \<open>
  Lines 6 to 26 of \<^verbatim>\<open>main\<close>, in order. The two \<^verbatim>\<open>nh.param\<close> calls of lines 12
  and 13 bind \<^verbatim>\<open>rate_odom\<close> and \<^verbatim>\<open>rate_meas\<close>; they are used as the
  \<^verbatim>\<open>ros::Duration\<close> of the timers of lines 17 and 18.
\<close>

definition main :: "(string \<rightharpoonup> real) \<Rightarrow> stmt list" where
  "main ps =
     (let rate_odom = param ps ''odom_rate'' 1;
          rate_meas = param ps ''meas_rate'' 1
      in [RosInit ''auv_motion_model'',
          NodeHandle ''~'',
          Construct auv_mm,
          Init auv_mm,
          CreateTimer rate_odom UpdateMotion auv_mm,
          CreateTimer rate_meas UpdateMeas auv_mm,
          Spin,
          WaitForShutdown,
          DeleteIfNotOk auv_mm,
          RosInfo ''auv_motion_model finished''])"

text \<open>
  Modelled from the spec: the constructor and \<^verbatim>\<open>AUVMotionModel::init\<close> are declared in
  \<^verbatim>\<open>auv_motion_simple.hpp\<close>, which is absent from the sources. Section 4.4 gives the
  motion model the states Uninitialized and Running; a fresh object is Uninitialized and
  \<^verbatim>\<open>init()\<close> moves it to Running.

  The other statements belong to the runtime: the node is up once its handle exists,
  a timer exists once it is created, and \<^verbatim>\<open>ros::spin()\<close> returns once the node has
  been shut down, after which \<^verbatim>\<open>ros::ok()\<close> is false.
\<close>

fun exec :: "stmt \<Rightarrow> world \<Rightarrow> world" where
  "exec (RosInit n) w = w"
| "exec (NodeHandle ns) w = w\<lparr>ok := True\<rparr>"
| "exec (Construct a) w = w\<lparr>models := (models w)(a \<mapsto> Uninitialized)\<rparr>"
| "exec (Init a) w =
     (case models w a of
        None \<Rightarrow> w
      | Some s \<Rightarrow> w\<lparr>models := (models w)(a \<mapsto> Running)\<rparr>)"
| "exec (CreateTimer d cb a) w =
     w\<lparr>timers := timers w @ [\<lparr>period = d, handler = cb, target = a\<rparr>]\<rparr>"
| "exec Spin w = w\<lparr>ok := False\<rparr>"
| "exec WaitForShutdown w = w"
| "exec (DeleteIfNotOk a) w = (if \<not> ok w then w\<lparr>models := (models w)(a := None)\<rparr> else w)"
| "exec (RosInfo m) w = w"

fun exec_all :: "stmt list \<Rightarrow> world \<Rightarrow> world" where
  "exec_all [] w = w"
| "exec_all (s # ss) w = exec_all ss (exec s w)"

text \<open>The state of the node at the moment \<^verbatim>\<open>ros::spin()\<close> is entered.\<close>

definition at_spin :: "(string \<rightharpoonup> real) \<Rightarrow> world" where
  "at_spin ps = exec_all (takeWhile (\<lambda>s. s \<noteq> Spin) (main ps)) world0"

subsection \<open>Executions\<close>

text \<open>
  An execution interleaves the statements of \<^verbatim>\<open>main\<close> with timer callbacks. A
  callback can only be invoked by a timer that has been created, while the node is
  running; nothing else is assumed about when a timer fires, so every spinner and every
  pair of periods is covered. The label of a callback step records the state in which
  the callback found its object.
\<close>

datatype label =
    Executed stmt
  | Invoked callback nat "mm_state option"

inductive step :: "stmt list \<times> world \<Rightarrow> label \<Rightarrow> stmt list \<times> world \<Rightarrow> bool" where
  Exec: "step (s # ss, w) (Executed s) (ss, exec s w)"
| Fire: "t \<in> set (timers w) \<Longrightarrow> ok w \<Longrightarrow>
         step (ss, w) (Invoked (handler t) (target t) (models w (target t))) (ss, w)"

inductive run :: "stmt list \<times> world \<Rightarrow> label list \<Rightarrow> stmt list \<times> world \<Rightarrow> bool" where
  Nil: "run c [] c"
| Snoc: "run c tr c' \<Longrightarrow> step c' l c'' \<Longrightarrow> run c (tr @ [l]) c''"

text \<open>Observations on the labels of an execution.\<close>

definition is_init_stmt :: "stmt \<Rightarrow> bool" where
  "is_init_stmt s = (case s of Init a \<Rightarrow> True | _ \<Rightarrow> False)"

definition is_init :: "label \<Rightarrow> bool" where
  "is_init l = (case l of Executed s \<Rightarrow> is_init_stmt s | _ \<Rightarrow> False)"

definition is_create_timer :: "label \<Rightarrow> bool" where
  "is_create_timer l = (case l of Executed (CreateTimer d cb a) \<Rightarrow> True | _ \<Rightarrow> False)"

definition is_invoked :: "label \<Rightarrow> bool" where
  "is_invoked l = (case l of Invoked cb a st \<Rightarrow> True | _ \<Rightarrow> False)"

definition found_running :: "label \<Rightarrow> bool" where
  "found_running l = (case l of Invoked cb a st \<Rightarrow> st = Some Running | _ \<Rightarrow> True)"

text \<open>The statements that an execution has completed, in order.\<close>

definition executed :: "label list \<Rightarrow> stmt list" where
  "executed tr = concat (map (\<lambda>l. case l of Executed s \<Rightarrow> [s] | _ \<Rightarrow> []) tr)"

text \<open>
  An execution with no parameter set: the first six statements of \<^verbatim>\<open>main\<close>, then the
  measurement timer fires, then the odometry timer.
\<close>

definition sample_trace :: "label list" where
  "sample_trace =
     map Executed (take 6 (main Map.empty))
       @ [Invoked UpdateMeas auv_mm (Some Running), Invoked UpdateMotion auv_mm (Some Running)]"



section \<open>The launch description of the particle filter\<close>

text \<open>
  The launch file declares arguments with defaults, and two groups guarded by
  \<^verbatim>\<open>debug_mode\<close>, each holding one \<^verbatim>\<open>auv_pf\<close> node with its parameters. Attribute
  values are texts with \<^verbatim>\<open>$(arg name)\<close> substitutions.
\<close>

datatype piece = Lit string | ArgRef string

type_synonym template = "piece list"

record arg_decl =
  arg_name :: string
  arg_default :: template

record param_decl =
  param_name :: string
  param_type :: "string option"
  param_value :: template

record node_decl =
  node_type :: string
  pkg :: string
  node_name :: string
  node_output :: string
  params :: "param_decl list"

datatype guard = If template | Unless template

record group_decl =
  cond :: guard
  nodes :: "node_decl list"

record launch_decl =
  args :: "arg_decl list"
  groups :: "group_decl list"

text \<open>Lines 29 to 41: the parameters of the node in the quiet group.\<close>

definition quiet_params :: "param_decl list" where
  "quiet_params =
    [\<lparr>param_name = ''particle_count'', param_type = Some ''int'',
        param_value = [ArgRef ''particle_count'']\<rparr>,
     \<lparr>param_name = ''init_covariance'', param_type = None,
        param_value = [ArgRef ''init_covariance'']\<rparr>,
     \<lparr>param_name = ''measurement_covariance'', param_type = None,
        param_value = [ArgRef ''measurement_covariance'']\<rparr>,
     \<lparr>param_name = ''motion_covariance'', param_type = None,
        param_value = [ArgRef ''motion_covariance'']\<rparr>,
     \<lparr>param_name = ''map_frame'', param_type = None,
        param_value = [ArgRef ''map_frame'']\<rparr>,
     \<lparr>param_name = ''odom_frame'', param_type = None,
        param_value = [ArgRef ''odom_frame'']\<rparr>,
     \<lparr>param_name = ''odometry_topic'', param_type = None,
        param_value = [ArgRef ''odometry_topic'']\<rparr>,
     \<lparr>param_name = ''mbes_pings_topic'', param_type = None,
        param_value = [ArgRef ''mbes_pings_topic'']\<rparr>,
     \<lparr>param_name = ''average_pose_topic'', param_type = None,
        param_value = [ArgRef ''average_pose_topic'']\<rparr>,
     \<lparr>param_name = ''average_mbes_topic'', param_type = None,
        param_value = [ArgRef ''average_mbes_topic'']\<rparr>,
     \<lparr>param_name = ''particle_poses_topic'', param_type = None,
        param_value = [ArgRef ''particle_poses_topic'']\<rparr>,
     \<lparr>param_name = ''particle_sim_mbes_topic'', param_type = None,
        param_value = [ArgRef ''particle_sim_mbes_topic'']\<rparr>]"

text \<open>Lines 47 to 58: the parameters of the node in the debug group.\<close>

definition debug_params :: "param_decl list" where
  "debug_params =
    [\<lparr>param_name = ''particle_count'', param_type = Some ''int'',
        param_value = [ArgRef ''particle_count'']\<rparr>,
     \<lparr>param_name = ''init_covariance'', param_type = None,
        param_value = [ArgRef ''init_covariance'']\<rparr>,
     \<lparr>param_name = ''measurement_covariance'', param_type = None,
        param_value = [ArgRef ''measurement_covariance'']\<rparr>,
     \<lparr>param_name = ''motion_covariance'', param_type = None,
        param_value = [ArgRef ''motion_covariance'']\<rparr>,
     \<lparr>param_name = ''map_frame'', param_type = None,
        param_value = [ArgRef ''map_frame'']\<rparr>,
     \<lparr>param_name = ''odom_frame'', param_type = None,
        param_value = [ArgRef ''odom_frame'']\<rparr>,
     \<lparr>param_name = ''odometry_topic'', param_type = None,
        param_value = [ArgRef ''odometry_topic'']\<rparr>,
     \<lparr>param_name = ''mbes_pings_topic'', param_type = None,
        param_value = [ArgRef ''mbes_pings_topic'']\<rparr>,
     \<lparr>param_name = ''average_pose_topic'', param_type = None,
        param_value = [ArgRef ''average_pose_topic'']\<rparr>,
     \<lparr>param_name = ''average_mbes_topic'', param_type = None,
        param_value = [ArgRef ''average_mbes_topic'']\<rparr>,
     \<lparr>param_name = ''particle_poses_topic'', param_type = None,
        param_value = [ArgRef ''particle_poses_topic'']\<rparr>,
     \<lparr>param_name = ''particle_sim_mbes_topic'', param_type = None,
        param_value = [ArgRef ''particle_sim_mbes_topic'']\<rparr>]"

definition quiet_node :: node_decl where
  "quiet_node = \<lparr>node_type = ''auv_pf.py'', pkg = ''auv_particle_filter'',
                  node_name = ''auv_pf'', node_output = ''log'', params = quiet_params\<rparr>"

definition debug_node :: node_decl where
  "debug_node = \<lparr>node_type = ''auv_pf.py'', pkg = ''auv_particle_filter'',
                  node_name = ''auv_pf'', node_output = ''screen'', params = debug_params\<rparr>"

text \<open>Lines 4 to 22 (the arguments) and lines 27 to 60 (the two groups).\<close>

definition auv_pf_launch :: launch_decl where
  "auv_pf_launch =
    \<lparr>args =
      [\<lparr>arg_name = ''mode'', arg_default = [Lit ''sim'']\<rparr>,
       \<lparr>arg_name = ''debug_mode'', arg_default = [Lit ''True'']\<rparr>,
       \<lparr>arg_name = ''filter'', arg_default = [Lit ''pf'']\<rparr>,
       \<lparr>arg_name = ''particle_count'', arg_default = [Lit ''1'']\<rparr>,
       \<lparr>arg_name = ''init_covariance'', arg_default = [Lit ''[0, 0, 0.0, 0.0, 0.0, 0.0]'']\<rparr>,
       \<lparr>arg_name = ''motion_covariance'',
          arg_default = [Lit ''[0, 0, 0.0, 0.0, 0.0, 0.00]'']\<rparr>,
       \<lparr>arg_name = ''measurement_covariance'', arg_default = [Lit ''0.1'']\<rparr>,
       \<lparr>arg_name = ''map_frame'', arg_default = [Lit ''map'']\<rparr>,
       \<lparr>arg_name = ''odom_frame'', arg_default = [Lit ''odom'']\<rparr>,
       \<lparr>arg_name = ''odometry_topic'',
          arg_default = [Lit ''/'', ArgRef ''mode'', Lit ''/odom'']\<rparr>,
       \<lparr>arg_name = ''mbes_pings_topic'',
          arg_default = [Lit ''/'', ArgRef ''mode'', Lit ''/mbes_pings'']\<rparr>,
       \<lparr>arg_name = ''average_pose_topic'',
          arg_default = [Lit ''/'', ArgRef ''filter'', Lit ''/avg_pose'']\<rparr>,
       \<lparr>arg_name = ''particle_poses_topic'',
          arg_default = [Lit ''/'', ArgRef ''filter'', Lit ''/particle_poses'']\<rparr>,
       \<lparr>arg_name = ''particle_sim_mbes_topic'',
          arg_default = [Lit ''/'', ArgRef ''filter'', Lit ''/sim_mbes'']\<rparr>,
       \<lparr>arg_name = ''average_mbes_topic'',
          arg_default = [Lit ''/'', ArgRef ''filter'', Lit ''/avg_mbes'']\<rparr>],
     groups =
      [\<lparr>cond = Unless [ArgRef ''debug_mode''], nodes = [quiet_node]\<rparr>,
       \<lparr>cond = If [ArgRef ''debug_mode''], nodes = [debug_node]\<rparr>]\<rparr>"

subsection \<open>Evaluation of a launch description\<close>

text \<open>
  The launcher is external. Its evaluation is modelled as far as the file uses it:
  arguments are resolved in order, a value given by the caller replacing the default; a
  reference to an undeclared argument, or a guard that is not a boolean, aborts the
  launch (\<open>None\<close>). A guard is read case-insensitively: \<^verbatim>\<open>true\<close> and \<^verbatim>\<open>1\<close> hold,
  \<^verbatim>\<open>false\<close> and \<^verbatim>\<open>0\<close> do not.
\<close>

fun subst :: "(string \<times> string) list \<Rightarrow> template \<Rightarrow> string option" where
  "subst env [] = Some []"
| "subst env (Lit s # ps) = map_option (\<lambda>r. s @ r) (subst env ps)"
| "subst env (ArgRef a # ps) =
     (case map_of env a of
        None \<Rightarrow> None
      | Some v \<Rightarrow> map_option (\<lambda>r. v @ r) (subst env ps))"

fun resolve_args ::
  "(string \<rightharpoonup> string) \<Rightarrow> (string \<times> string) list \<Rightarrow> arg_decl list
     \<Rightarrow> (string \<times> string) list option" where
  "resolve_args given env [] = Some env"
| "resolve_args given env (a # as) =
     (case given (arg_name a) of
        Some v \<Rightarrow> resolve_args given ((arg_name a, v) # env) as
      | None \<Rightarrow>
          (case subst env (arg_default a) of
             None \<Rightarrow> None
           | Some v \<Rightarrow> resolve_args given ((arg_name a, v) # env) as))"

text \<open>The value an argument takes: the one given by the caller, or else its default.\<close>

definition arg_or :: "(string \<rightharpoonup> string) \<Rightarrow> string \<Rightarrow> string \<Rightarrow> string" where
  "arg_or given k d = (case given k of Some v \<Rightarrow> v | None \<Rightarrow> d)"

definition lower :: "char \<Rightarrow> char" where
  "lower c =
     (case map_of (zip ''ABCDEFGHIJKLMNOPQRSTUVWXYZ'' ''abcdefghijklmnopqrstuvwxyz'') c of
        Some l \<Rightarrow> l
      | None \<Rightarrow> c)"

definition bool_attr :: "string \<Rightarrow> bool option" where
  "bool_attr v =
     (let l = map lower v
      in if l = ''true'' \<or> l = ''1'' then Some True
         else if l = ''false'' \<or> l = ''0'' then Some False
         else None)"

fun enabled :: "(string \<times> string) list \<Rightarrow> guard \<Rightarrow> bool option" where
  "enabled env (If t) = (case subst env t of None \<Rightarrow> None | Some v \<Rightarrow> bool_attr v)"
| "enabled env (Unless t) =
     (case subst env t of None \<Rightarrow> None | Some v \<Rightarrow> map_option Not (bool_attr v))"

record started_param =
  sp_name :: string
  sp_type :: "string option"
  sp_value :: string

record started_node =
  sn_type :: string
  sn_pkg :: string
  sn_name :: string
  sn_output :: string
  sn_params :: "started_param list"

fun start_params :: "(string \<times> string) list \<Rightarrow> param_decl list \<Rightarrow> started_param list option" where
  "start_params env [] = Some []"
| "start_params env (p # ps) =
     (case subst env (param_value p) of
        None \<Rightarrow> None
      | Some v \<Rightarrow>
          map_option
            (\<lambda>r. \<lparr>sp_name = param_name p, sp_type = param_type p, sp_value = v\<rparr> # r)
            (start_params env ps))"

definition start_node :: "(string \<times> string) list \<Rightarrow> node_decl \<Rightarrow> started_node option" where
  "start_node env n =
     map_option
       (\<lambda>ps. \<lparr>sn_type = node_type n, sn_pkg = pkg n, sn_name = node_name n,
               sn_output = node_output n, sn_params = ps\<rparr>)
       (start_params env (params n))"

fun start_nodes :: "(string \<times> string) list \<Rightarrow> node_decl list \<Rightarrow> started_node list option" where
  "start_nodes env [] = Some []"
| "start_nodes env (n # ns) =
     (case start_node env n of
        None \<Rightarrow> None
      | Some s \<Rightarrow> map_option (\<lambda>r. s # r) (start_nodes env ns))"

fun start_groups :: "(string \<times> string) list \<Rightarrow> group_decl list \<Rightarrow> started_node list option" where
  "start_groups env [] = Some []"
| "start_groups env (g # gs) =
     (case enabled env (cond g) of
        None \<Rightarrow> None
      | Some on \<Rightarrow>
          (case (if on then start_nodes env (nodes g) else Some []) of
             None \<Rightarrow> None
           | Some s \<Rightarrow> map_option (\<lambda>r. s @ r) (start_groups env gs)))"

definition roslaunch :: "launch_decl \<Rightarrow> (string \<rightharpoonup> string) \<Rightarrow> started_node list option" where
  "roslaunch l given =
     (case resolve_args given [] (args l) of
        None \<Rightarrow> None
      | Some env \<Rightarrow> start_groups env (groups l))"

text \<open>The value with which a started node receives a parameter.\<close>

definition delivered :: "started_node \<Rightarrow> string \<Rightarrow> string option" where
  "delivered n k = map_of (map (\<lambda>p. (sp_name p, sp_value p)) (sn_params n)) k"

subsection \<open>Reading parameter texts\<close>

text \<open>
  The launch file carries numbers as text: \<^verbatim>\<open>1\<close>, \<^verbatim>\<open>0.1\<close>, and the covariance
  diagonals as bracketed, comma-separated lists of unsigned decimal numerals.
\<close>

definition digit :: "char \<Rightarrow> nat option" where
  "digit c =
     map_of
       [(CHR ''0'', 0), (CHR ''1'', 1), (CHR ''2'', 2), (CHR ''3'', 3), (CHR ''4'', 4),
        (CHR ''5'', 5), (CHR ''6'', 6), (CHR ''7'', 7), (CHR ''8'', 8), (CHR ''9'', 9)] c"

fun digits :: "nat \<Rightarrow> string \<Rightarrow> nat option" where
  "digits acc [] = Some acc"
| "digits acc (c # cs) =
     (case digit c of None \<Rightarrow> None | Some d \<Rightarrow> digits (10 * acc + d) cs)"

definition parse_nat :: "string \<Rightarrow> nat option" where
  "parse_nat s = (if s = [] then None else digits 0 s)"

definition parse_decimal :: "string \<Rightarrow> real option" where
  "parse_decimal s =
     (let ip = takeWhile (\<lambda>c. c \<noteq> CHR ''.'') s;
          rest = dropWhile (\<lambda>c. c \<noteq> CHR ''.'') s
      in case parse_nat ip of
           None \<Rightarrow> None
         | Some i \<Rightarrow>
             (case rest of
                [] \<Rightarrow> Some (real i)
              | dot # fp \<Rightarrow>
                  (case parse_nat fp of
                     None \<Rightarrow> None
                   | Some f \<Rightarrow> Some (real i + real f / 10 ^ length fp))))"

fun split_on :: "char \<Rightarrow> string \<Rightarrow> string \<Rightarrow> string list" where
  "split_on sep cur [] = [rev cur]"
| "split_on sep cur (c # cs) =
     (if c = sep then rev cur # split_on sep [] cs else split_on sep (c # cur) cs)"

definition trim :: "string \<Rightarrow> string" where
  "trim s = rev (dropWhile (\<lambda>c. c = CHR '' '') (rev (dropWhile (\<lambda>c. c = CHR '' '') s)))"

fun those_list :: "'a option list \<Rightarrow> 'a list option" where
  "those_list [] = Some []"
| "those_list (x # xs) =
     (case x of None \<Rightarrow> None | Some v \<Rightarrow> map_option (\<lambda>r. v # r) (those_list xs))"

definition parse_real_list :: "string \<Rightarrow> real list option" where
  "parse_real_list s =
     (case trim s of
        [] \<Rightarrow> None
      | c # cs \<Rightarrow>
          if c = CHR ''['' \<and> cs \<noteq> [] \<and> last cs = CHR '']''
          then those_list (map (\<lambda>t. parse_decimal (trim t)) (split_on CHR '','' [] (butlast cs)))
          else None)"

text \<open>
  The options of section 6 of the specification, in the order in which it lists them.
\<close>

definition recognized_options :: "string list" where
  "recognized_options =
     [''particle_count'', ''init_covariance'', ''motion_covariance'',
      ''measurement_covariance'', ''map_frame'', ''odom_frame'',
      ''odometry_topic'', ''mbes_pings_topic'',
      ''average_pose_topic'', ''particle_poses_topic'', ''particle_sim_mbes_topic'',
      ''average_mbes_topic'']"



section \<open>The estimation core\<close>

text \<open>
  The wrapper and the launch file are the callers of the motion model and of the particle
  filter (\<^verbatim>\<open>auv_pf.py\<close>), whose bodies are absent from the sources. The definitions
  of this section follow sections 3, 4 and 7 of the specification, over the real numbers.
\<close>

text \<open>
  Modelled from the spec: the error kinds of section 7 that the filter signals to its
  caller. DegenerateWeights is recovered locally and MapMiss is not an error, so neither
  is a value of this type.
\<close>

datatype error = PreconditionViolation | ConfigurationError

text \<open>
  Modelled from the spec: the Pose of section 3, a position and three angles.
\<close>

record pose =
  px :: real
  py :: real
  pz :: real
  roll :: real
  pitch :: real
  yaw :: real

text \<open>The six components in the order x, y, z, roll, pitch, yaw.\<close>

definition components :: "pose \<Rightarrow> real list" where
  "components p = [px p, py p, pz p, roll p, pitch p, yaw p]"

text \<open>The delta that moves nothing.\<close>

definition zero_pose :: pose where
  "zero_pose = \<lparr>px = 0, py = 0, pz = 0, roll = 0, pitch = 0, yaw = 0\<rparr>"

subsection \<open>NoiseModel\<close>

text \<open>
  Modelled from the spec: a covariance diagonal is well-formed when it has six entries,
  none of them negative (section 7, ConfigurationError: wrong arity, negative variance).
\<close>

definition valid_covariance :: "real list \<Rightarrow> bool" where
  "valid_covariance cov = (length cov = 6 \<and> list_all (\<lambda>c. 0 \<le> c) cov)"

text \<open>
  Modelled from the spec: \<^verbatim>\<open>NoiseModel.sample(covarianceDiag[6]) -> Pose-delta\<close> of
  section 4.1, which is absent from the sources. It draws six independent Gaussian variates
  and scales each by the square root of the diagonal entry of its axis. The random source
  is made explicit: the six standard normal variates \<open>g\<close> are an argument.
\<close>

definition sample :: "real list \<Rightarrow> real list \<Rightarrow> error + pose" where
  "sample cov g =
     (if valid_covariance cov \<and> length g = 6
      then Inr \<lparr>px = sqrt (cov ! 0) * g ! 0, py = sqrt (cov ! 1) * g ! 1,
                pz = sqrt (cov ! 2) * g ! 2, roll = sqrt (cov ! 3) * g ! 3,
                pitch = sqrt (cov ! 4) * g ! 4, yaw = sqrt (cov ! 5) * g ! 5\<rparr>
      else Inl ConfigurationError)"

subsection \<open>Pose composition\<close>

text \<open>Vectors and matrices of three dimensions, a matrix as its three rows.\<close>

type_synonym vec3 = "real \<times> real \<times> real"

type_synonym mat3 = "vec3 \<times> vec3 \<times> vec3"

fun vec_add :: "vec3 \<Rightarrow> vec3 \<Rightarrow> vec3" where
  "vec_add (a, b, c) (d, e, f) = (a + d, b + e, c + f)"

fun dot :: "vec3 \<Rightarrow> vec3 \<Rightarrow> real" where
  "dot (a, b, c) (d, e, f) = a * d + b * e + c * f"

fun mat_vec :: "mat3 \<Rightarrow> vec3 \<Rightarrow> vec3" where
  "mat_vec (r1, r2, r3) v = (dot r1 v, dot r2 v, dot r3 v)"

fun transpose3 :: "mat3 \<Rightarrow> mat3" where
  "transpose3 ((a, b, c), (d, e, f), (g, h, i)) = ((a, d, g), (b, e, h), (c, f, i))"

fun mat_mul :: "mat3 \<Rightarrow> mat3 \<Rightarrow> mat3" where
  "mat_mul (r1, r2, r3) m =
     (case transpose3 m of
        (c1, c2, c3) \<Rightarrow>
          ((dot r1 c1, dot r1 c2, dot r1 c3),
           (dot r2 c1, dot r2 c2, dot r2 c3),
           (dot r3 c1, dot r3 c2, dot r3 c3)))"

text \<open>The rotations about the three axes.\<close>

definition rot_x :: "real \<Rightarrow> mat3" where
  "rot_x a = ((1, 0, 0), (0, cos a, - sin a), (0, sin a, cos a))"

definition rot_y :: "real \<Rightarrow> mat3" where
  "rot_y a = ((cos a, 0, sin a), (0, 1, 0), (- sin a, 0, cos a))"

definition rot_z :: "real \<Rightarrow> mat3" where
  "rot_z a = ((cos a, - sin a, 0), (sin a, cos a, 0), (0, 0, 1))"

text \<open>A rigid-body transform: a rotation followed by a translation.\<close>

record transform =
  rotation :: mat3
  translation :: vec3

text \<open>
  Modelled from the spec: a Pose (section 3) is a rigid-body position and orientation,
  "composable via rigid-body transform (pose-on-pose)". The transform of a pose is the
  rotation by roll, pitch and yaw about the x, y and z axes followed by the translation to
  its position. The specification does not say how the orientation of a composed pose is
  read back into three angles, so a composition is kept as the composed transform.
\<close>

definition to_transform :: "pose \<Rightarrow> transform" where
  "to_transform p =
     \<lparr>rotation = mat_mul (rot_z (yaw p)) (mat_mul (rot_y (pitch p)) (rot_x (roll p))),
      translation = (px p, py p, pz p)\<rparr>"

text \<open>
  Modelled from the spec: the composition of two rigid-body transforms, the second one
  applied in the frame of the first.
\<close>

definition compose_transform :: "transform \<Rightarrow> transform \<Rightarrow> transform" where
  "compose_transform a b =
     \<lparr>rotation = mat_mul (rotation a) (rotation b),
      translation = vec_add (mat_vec (rotation a) (translation b)) (translation a)\<rparr>"

text \<open>
  Modelled from the spec: pose-on-pose composition (section 3), as the transform of the
  first pose composed with the transform of the second.
\<close>

definition compose :: "pose \<Rightarrow> pose \<Rightarrow> transform" where
  "compose p d = compose_transform (to_transform p) (to_transform d)"

text \<open>
  Modelled from the spec: an angle wrapped to \<open>(- pi, pi]\<close>, and the invariant of
  section 3 that the orientation components of a pose are so normalised.
\<close>

definition wrap :: "real \<Rightarrow> real" where
  "wrap a = a - 2 * pi * of_int \<lceil>(a - pi) / (2 * pi)\<rceil>"

definition normalized :: "pose \<Rightarrow> bool" where
  "normalized p =
     (- pi < roll p \<and> roll p \<le> pi \<and> - pi < pitch p \<and> pitch p \<le> pi
      \<and> - pi < yaw p \<and> yaw p \<le> pi)"

text \<open>
  Modelled from the spec: the prediction step of section 4.5 "adds" a NoiseModel
  perturbation to a pose; the delta is added component by component and the angles are
  normalised again.
\<close>

definition add_perturbation :: "pose \<Rightarrow> pose \<Rightarrow> pose" where
  "add_perturbation p d =
     \<lparr>px = px p + px d, py = py p + py d, pz = pz p + pz d,
      roll = wrap (roll p + roll d), pitch = wrap (pitch p + pitch d),
      yaw = wrap (yaw p + yaw d)\<rparr>"

subsection \<open>ParticleFilter\<close>

text \<open>
  Modelled from the spec: the Particle of section 3, a pose hypothesis with its weight.
\<close>

record particle =
  pose :: pose
  weight :: real

text \<open>
  Modelled from the spec: the states of the filter (section 4.5) and the filter state of
  section 3, which owns the ordered particle population.
\<close>

datatype pf_state = Initializing | Ready

record particle_filter =
  state :: pf_state
  particles :: "particle list"

text \<open>The weights of the population, in order.\<close>

definition weights :: "particle_filter \<Rightarrow> real list" where
  "weights f = map weight (particles f)"

text \<open>
  Modelled from the spec: the unnormalised weights of section 4.5, each particle's prior
  weight multiplied by its likelihood. The likelihood of a particle (the comparison of
  the real ping with the ping simulated at the particle's pose) is the argument \<open>lik\<close>.
\<close>

definition unnormalized :: "(pose \<Rightarrow> real) \<Rightarrow> particle list \<Rightarrow> real list" where
  "unnormalized lik ps = map (\<lambda>p. weight p * lik (pose p)) ps"

text \<open>
  Modelled from the spec: \<^verbatim>\<open>ParticleFilter.update\<close> of section 4.5, which is absent
  from the sources. The unnormalised weights are normalised to sum to 1; when their sum
  is zero, the weights are reset to uniform instead of dividing by zero. Calling it
  before the filter is Ready is a PreconditionViolation (section 7).
\<close>

definition update :: "(pose \<Rightarrow> real) \<Rightarrow> particle_filter \<Rightarrow> error + particle_filter" where
  "update lik f =
     (if state f \<noteq> Ready then Inl PreconditionViolation
      else
        let ps = particles f;
            un = unnormalized lik ps;
            total = sum_list un
        in Inr (f\<lparr>particles :=
                  (if total = 0
                   then map (\<lambda>p. p\<lparr>weight := 1 / real (length ps)\<rparr>) ps
                   else map (\<lambda>(p, u). p\<lparr>weight := u / total\<rparr>) (zip ps un))\<rparr>))"

text \<open>
  Modelled from the spec: the effective sample size of section 4.5,
  \<open>1 / \<Sum> weight\<^sup>2\<close>.
\<close>

definition ess :: "real list \<Rightarrow> real" where
  "ess ws = 1 / sum_list (map (\<lambda>w. w\<^sup>2) ws)"

text \<open>Modelled from the spec: the cumulative-weight sequence of section 4.5.\<close>

fun cumsum :: "real \<Rightarrow> real list \<Rightarrow> real list" where
  "cumsum acc [] = []"
| "cumsum acc (w # ws) = (acc + w) # cumsum (acc + w) ws"

text \<open>
  Modelled from the spec: the ordered points of systematic resampling, as many as there
  are particles, spaced by \<open>1 / particleCount\<close> from the one random offset \<open>u\<close>.
\<close>

definition positions :: "real \<Rightarrow> nat \<Rightarrow> real list" where
  "positions u n = map (\<lambda>i. (u + real i) / real n) [0..<n]"

text \<open>
  Modelled from the spec: the walk along the cumulative weights that selects indices. A
  point below the current cumulative weight selects the current index; otherwise the
  walk moves on. The last index takes every point that is left.
\<close>

fun select :: "real list \<Rightarrow> nat \<Rightarrow> real list \<Rightarrow> nat list" where
  "select cs j [] = []"
| "select [] j (p # ps) = j # select [] j ps"
| "select (c # cs) j (p # ps) =
     (if p < c \<or> cs = [] then j # select (c # cs) j ps
      else select cs (Suc j) (p # ps))"

text \<open>
  Modelled from the spec: systematic resampling (section 4.5), the particles at the
  selected indices.
\<close>

definition systematic_resample :: "real \<Rightarrow> particle list \<Rightarrow> particle list" where
  "systematic_resample u ps =
     map (\<lambda>j. ps ! j) (select (cumsum 0 (map weight ps)) 0 (positions u (length ps)))"

text \<open>
  Modelled from the spec: \<^verbatim>\<open>maybeResample\<close> of section 4.5. When the effective sample
  size is below the threshold the population is resampled and all weights are reset to
  uniform. The threshold ("commonly particleCount / 2") and the offset are arguments.
\<close>

definition maybeResample :: "real \<Rightarrow> real \<Rightarrow> particle_filter \<Rightarrow> particle_filter" where
  "maybeResample threshold u f =
     (let ps = particles f
      in if ess (map weight ps) < threshold
         then f\<lparr>particles :=
                  map (\<lambda>p. p\<lparr>weight := 1 / real (length ps)\<rparr>) (systematic_resample u ps)\<rparr>
         else f)"

text \<open>
  The two-argument arctangent, with values in \<open>(- pi, pi]\<close> and 0 at the origin.
\<close>

definition atan2 :: "real \<Rightarrow> real \<Rightarrow> real" where
  "atan2 y x =
     (if 0 < x then arctan (y / x)
      else if x < 0 \<and> 0 \<le> y then arctan (y / x) + pi
      else if x < 0 \<and> y < 0 then arctan (y / x) - pi
      else if 0 < y then pi / 2
      else if y < 0 then - (pi / 2)
      else 0)"

text \<open>
  Modelled from the spec: the sums that \<^verbatim>\<open>estimate()\<close> accumulates, the weighted
  coordinates and the weighted cosine and sine of each angle.
\<close>

record pose_sums =
  sx :: real
  sy :: real
  sz :: real
  cos_roll :: real
  sin_roll :: real
  cos_pitch :: real
  sin_pitch :: real
  cos_yaw :: real
  sin_yaw :: real

definition zero_sums :: pose_sums where
  "zero_sums = \<lparr>sx = 0, sy = 0, sz = 0, cos_roll = 0, sin_roll = 0,
                 cos_pitch = 0, sin_pitch = 0, cos_yaw = 0, sin_yaw = 0\<rparr>"

text \<open>Modelled from the spec: the contribution of one particle to the sums.\<close>

definition accumulate :: "pose_sums \<Rightarrow> particle \<Rightarrow> pose_sums" where
  "accumulate s p =
     (let w = weight p; q = pose p
      in \<lparr>sx = sx s + w * px q, sy = sy s + w * py q, sz = sz s + w * pz q,
          cos_roll = cos_roll s + w * cos (roll q), sin_roll = sin_roll s + w * sin (roll q),
          cos_pitch = cos_pitch s + w * cos (pitch q),
          sin_pitch = sin_pitch s + w * sin (pitch q),
          cos_yaw = cos_yaw s + w * cos (yaw q), sin_yaw = sin_yaw s + w * sin (yaw q)\<rparr>)"

text \<open>
  Modelled from the spec: \<^verbatim>\<open>estimate()\<close> of section 4.5, which is absent from the
  sources: the weighted arithmetic mean for x, y and z and, for each angle, the sum of
  weight times (cos, sin) over the particles, then atan2. The sums are accumulated in one
  pass over the particles.
\<close>

definition estimate :: "particle_filter \<Rightarrow> pose" where
  "estimate f =
     (let s = foldl accumulate zero_sums (particles f)
      in \<lparr>px = sx s, py = sy s, pz = sz s,
          roll = atan2 (sin_roll s) (cos_roll s),
          pitch = atan2 (sin_pitch s) (cos_pitch s),
          yaw = atan2 (sin_yaw s) (cos_yaw s)\<rparr>)"

text \<open>The weighted sum of a quantity over the particles, as the specification writes it.\<close>

definition weighted_sum :: "(pose \<Rightarrow> real) \<Rightarrow> particle list \<Rightarrow> real" where
  "weighted_sum q ps = (\<Sum>p\<leftarrow>ps. weight p * q (pose p))"


subsection \<open>Initialisation of the filter\<close>

text \<open>
  Modelled from the spec: the random source of \<^verbatim>\<open>initialize\<close>, made explicit. \<open>g i k\<close>
  is the standard normal variate drawn for axis \<open>k\<close> of particle \<open>i\<close>.
\<close>

definition variates :: "(nat \<Rightarrow> nat \<Rightarrow> real) \<Rightarrow> nat \<Rightarrow> real list" where
  "variates g i = [g i 0, g i 1, g i 2, g i 3, g i 4, g i 5]"

text \<open>The results of a sequence of fallible steps, or the first error among them.\<close>

fun collect :: "(error + 'a) list \<Rightarrow> error + 'a list" where
  "collect [] = Inr []"
| "collect (r # rs) =
     (case r of
        Inl e \<Rightarrow> Inl e
      | Inr v \<Rightarrow> (case collect rs of Inl e \<Rightarrow> Inl e | Inr vs \<Rightarrow> Inr (v # vs)))"

text \<open>
  Modelled from the spec: one particle of the initial population (section 4.5), the
  prior pose perturbed by a NoiseModel sample, with the given weight.
\<close>

definition draw_particle :: "real list \<Rightarrow> pose \<Rightarrow> real \<Rightarrow> real list \<Rightarrow> error + particle" where
  "draw_particle cov prior w gs =
     (case sample cov gs of
        Inl e \<Rightarrow> Inl e
      | Inr d \<Rightarrow> Inr \<lparr>pose = add_perturbation prior d, weight = w\<rparr>)"

text \<open>
  Modelled from the spec: \<^verbatim>\<open>initialize(particleCount, initCovarianceDiag)\<close> of section
  4.5, which is absent from the sources. It draws \<open>particleCount\<close> poses by perturbing a
  prior pose with NoiseModel(initCovariance), sets all weights to \<open>1 / particleCount\<close> and
  moves the filter to Ready. A malformed covariance is a ConfigurationError, surfaced
  here (section 7).
\<close>

definition initialize ::
  "nat \<Rightarrow> real list \<Rightarrow> pose \<Rightarrow> (nat \<Rightarrow> nat \<Rightarrow> real) \<Rightarrow> error + particle_filter" where
  "initialize particleCount initCovarianceDiag prior g =
     (if \<not> valid_covariance initCovarianceDiag then Inl ConfigurationError
      else
        case collect
               (map (\<lambda>i. draw_particle initCovarianceDiag prior (1 / real particleCount)
                             (variates g i))
                    [0..<particleCount]) of
          Inl e \<Rightarrow> Inl e
        | Inr ps \<Rightarrow> Inr \<lparr>state = Ready, particles = ps\<rparr>)"

text \<open>
  Modelled from the spec: the start of the filter node. The options \<^verbatim>\<open>particle_count\<close>
  (an int) and \<^verbatim>\<open>init_covariance\<close> (six reals) of section 6 are read from the
  parameters that the launch file delivers and passed to \<^verbatim>\<open>initialize\<close>; a missing or
  malformed value is a ConfigurationError (section 7).
\<close>

definition start_filter ::
  "started_node \<Rightarrow> pose \<Rightarrow> (nat \<Rightarrow> nat \<Rightarrow> real) \<Rightarrow> error + particle_filter" where
  "start_filter n prior g =
     (case Option.bind (delivered n ''particle_count'') parse_nat of
        None \<Rightarrow> Inl ConfigurationError
      | Some particleCount \<Rightarrow>
          (case Option.bind (delivered n ''init_covariance'') parse_real_list of
             None \<Rightarrow> Inl ConfigurationError
           | Some initCovarianceDiag \<Rightarrow> initialize particleCount initCovarianceDiag prior g))"


section \<open>Properties of the process wrapper\<close>

lemma exec_all_snoc: "exec_all (ss @ [s]) w = exec s (exec_all ss w)"
  by (induction ss arbitrary: w) auto

lemma run_position:
  "run c0 tr c \<Longrightarrow>
     \<exists>k\<le>length (fst c0). executed tr = take k (fst c0) \<and> fst c = drop k (fst c0)
        \<and> snd c = exec_all (take k (fst c0)) (snd c0)"
proof (induction rule: run.induct)
  case (Nil c)
  show ?case by (rule exI [of _ 0]) (simp add: executed_def)
next
  case (Snoc c tr c' l c'')
  then obtain k where k: "k \<le> length (fst c)" "executed tr = take k (fst c)"
      "fst c' = drop k (fst c)" "snd c' = exec_all (take k (fst c)) (snd c)"
    by blast
  from Snoc.hyps(2) show ?case
  proof (cases rule: step.cases)
    case (Exec s ss w)
    with k have d: "drop k (fst c) = s # ss" by simp
    then have lt: "k < length (fst c)" by (cases "k < length (fst c)") auto
    from d have nth: "fst c ! k = s" by (metis nth_via_drop)
    from d have dr: "drop (Suc k) (fst c) = ss" by (metis drop_Suc tl_drop list.sel(3))
    have tk: "take (Suc k) (fst c) = take k (fst c) @ [s]"
      using lt nth by (simp add: take_Suc_conv_app_nth)
    show ?thesis
      apply (rule exI [of _ "Suc k"])
      using lt k Exec dr tk by (simp add: executed_def exec_all_snoc)
  next
    case (Fire t w ss)
    with k show ?thesis
      by (intro exI [of _ k]) (simp add: executed_def)
  qed
qed

lemma main_length: "length (main ps) = 10"
  by (simp add: main_def Let_def)

lemma upto10: "k \<le> (10::nat) \<Longrightarrow> k \<in> {0, 1, 2, 3, 4, 5, 6, 7, 8, 9, 10}"
  by simp arith

lemma main_ready:
  assumes "k \<le> 10" and "w = exec_all (take k (main ps)) world0"
    and "t \<in> set (timers w)" and "ok w"
  shows "models w (target t) = Some Running \<and> Init auv_mm \<in> set (take k (main ps))"
  using upto10 [OF assms(1)] assms(2-)
  by (auto simp: main_def Let_def world0_def)


lemma is_init_executed: "length (filter is_init tr) = length (filter is_init_stmt (executed tr))"
  by (induction tr) (auto simp: executed_def is_init_def is_init_stmt_def split: label.splits stmt.splits)

lemma init_count:
  assumes "k \<le> 10"
  shows "length (filter is_init_stmt (take k (main ps))) = (if 4 \<le> k then 1 else 0)"
  using upto10 [OF assms] by (auto simp: main_def Let_def is_init_stmt_def)

lemma create_timer_position:
  assumes "k \<le> 10" and "drop k (main ps) = CreateTimer d cb a # ss"
  shows "4 \<le> k"
  using upto10 [OF assms(1)] assms(2) by (auto simp: main_def Let_def)

lemma run_prefix:
  "run c0 tr c \<Longrightarrow> tr = tr1 @ l # tr2 \<Longrightarrow> \<exists>c1 c2. run c0 tr1 c1 \<and> step c1 l c2"
proof (induction arbitrary: tr2 rule: run.induct)
  case (Nil c)
  then show ?case by simp
next
  case (Snoc c tr c' l' c'')
  show ?case
  proof (cases tr2 rule: rev_cases)
    case Nil
    with Snoc.prems have "tr = tr1" "l' = l" by simp_all
    with Snoc.hyps show ?thesis by blast
  next
    case (snoc tr2' x)
    with Snoc.prems have "tr = tr1 @ l # tr2'" by simp
    with Snoc.IH show ?thesis by blast
  qed
qed

lemma step_found_running:
  assumes "run (main ps, world0) tr c" and "step c l c'"
  shows "found_running l"
proof -
  from run_position [OF assms(1)] obtain k where k: "k \<le> 10"
      "snd c = exec_all (take k (main ps)) world0"
    by (auto simp: main_length)
  from assms(2) show ?thesis
  proof (cases rule: step.cases)
    case (Exec s ss w)
    then show ?thesis by (simp add: found_running_def)
  next
    case (Fire t w ss)
    with k main_ready [of k w ps t] show ?thesis by (simp add: found_running_def)
  qed
qed

lemma all_found_running:
  "run c0 tr c \<Longrightarrow> c0 = (main ps, world0) \<Longrightarrow> \<forall>l \<in> set tr. found_running l"
proof (induction rule: run.induct)
  case (Nil c)
  show ?case by simp
next
  case (Snoc c tr c' l c'')
  then show ?case using step_found_running [of ps tr c' l c''] by auto
qed

lemma init_at_most_once:
  assumes "run (main ps, world0) tr c"
  shows "length (filter is_init tr) \<le> 1"
proof -
  from run_position [OF assms] obtain k where "k \<le> 10" "executed tr = take k (main ps)"
    by (auto simp: main_length)
  then show ?thesis by (simp add: is_init_executed init_count)
qed

lemma init_precedes:
  assumes "run (main ps, world0) tr1 c1" and "step c1 l c2"
    and "is_create_timer l \<or> is_invoked l"
  shows "length (filter is_init tr1) = 1"
proof -
  from run_position [OF assms(1)] obtain k where k: "k \<le> 10"
      "executed tr1 = take k (main ps)" "fst c1 = drop k (main ps)"
      "snd c1 = exec_all (take k (main ps)) world0"
    by (auto simp: main_length)
  have "4 \<le> k"
    using assms(2)
  proof (cases rule: step.cases)
    case (Exec s ss w)
    with assms(3) obtain d cb a where "s = CreateTimer d cb a"
      by (auto simp: is_create_timer_def is_invoked_def split: stmt.splits)
    with Exec k create_timer_position [of k ps d cb a ss] show ?thesis by simp
  next
    case (Fire t w ss)
    with k main_ready [of k w ps t] have "Init auv_mm \<in> set (take k (main ps))" by simp
    then have "filter is_init_stmt (take k (main ps)) \<noteq> []"
      by (force simp: filter_empty_conv is_init_stmt_def)
    with init_count [OF k(1), of ps] show ?thesis by (auto split: if_splits)
  qed
  with k show ?thesis by (simp add: is_init_executed init_count)
qed

text \<open>
  Claim C1. \<^verbatim>\<open>main\<close> contains exactly one call of \<^verbatim>\<open>init()\<close>. In every execution,
  whatever the timers do, \<^verbatim>\<open>init()\<close> has run at most once, it has run exactly once
  before any timer is created and before any callback is invoked, and every callback
  that is invoked finds the motion model Running, never Uninitialized.
\<close>

theorem init_once_before_timers:
  assumes "run (main ps, world0) tr c"
  shows "length (filter is_init_stmt (main ps)) = 1
       \<and> length (filter is_init tr) \<le> 1
       \<and> (\<forall>tr1 l tr2. tr = tr1 @ l # tr2 \<and> (is_create_timer l \<or> is_invoked l)
             \<longrightarrow> length (filter is_init tr1) = 1)
       \<and> (\<forall>l \<in> set tr. found_running l)"
proof (intro conjI allI impI)
  show "length (filter is_init_stmt (main ps)) = 1"
    using init_count [of 10 ps] by (simp add: main_length)
  show "length (filter is_init tr) \<le> 1"
    by (rule init_at_most_once [OF assms])
  show "\<forall>l \<in> set tr. found_running l"
    using all_found_running [OF assms] by simp
next
  fix tr1 l tr2
  assume h: "tr = tr1 @ l # tr2 \<and> (is_create_timer l \<or> is_invoked l)"
  with run_prefix [OF assms, of tr1 l tr2] obtain c1 c2
    where "run (main ps, world0) tr1 c1" "step c1 l c2" by blast
  with h show "length (filter is_init tr1) = 1"
    using init_precedes by blast
qed

lemma run_statements:
  "k \<le> length p \<Longrightarrow> run (p, w) (map Executed (take k p)) (drop k p, exec_all (take k p) w)"
proof (induction k)
  case 0
  show ?case by (simp add: run.Nil)
next
  case (Suc k)
  then have lt: "k < length p" by simp
  from Suc have r: "run (p, w) (map Executed (take k p)) (drop k p, exec_all (take k p) w)"
    by simp
  have d: "drop k p = p ! k # drop (Suc k) p"
    using lt by (simp add: Cons_nth_drop_Suc)
  have "step (drop k p, exec_all (take k p) w) (Executed (p ! k))
          (drop (Suc k) p, exec (p ! k) (exec_all (take k p) w))"
    unfolding d by (rule step.Exec)
  from run.Snoc [OF r this] show ?case
    using lt by (simp add: take_Suc_conv_app_nth exec_all_snoc)
qed

lemma sample_run:
  "run (main Map.empty, world0) sample_trace (drop 6 (main Map.empty), at_spin Map.empty)"
proof -
  let ?w = "exec_all (take 6 (main Map.empty)) world0"
  have w: "?w = at_spin Map.empty"
    by (simp add: at_spin_def main_def Let_def)
  have r0: "run (main Map.empty, world0) (map Executed (take 6 (main Map.empty)))
              (drop 6 (main Map.empty), ?w)"
    by (rule run_statements) (simp add: main_length)
  have t: "timers ?w = [\<lparr>period = 1, handler = UpdateMotion, target = auv_mm\<rparr>,
                        \<lparr>period = 1, handler = UpdateMeas, target = auv_mm\<rparr>]"
      and o: "ok ?w" and m: "models ?w auv_mm = Some Running"
    by (simp_all add: main_def Let_def world0_def param_def)
  have m': "models (at_spin Map.empty) auv_mm = Some Running"
    using m by (simp only: w)
  have s1: "step (drop 6 (main Map.empty), ?w)
              (Invoked (handler \<lparr>period = 1, handler = UpdateMeas, target = auv_mm\<rparr>)
                 (target \<lparr>period = 1, handler = UpdateMeas, target = auv_mm\<rparr>)
                 (models ?w (target \<lparr>period = 1, handler = UpdateMeas, target = auv_mm\<rparr>)))
              (drop 6 (main Map.empty), ?w)"
    by (rule step.Fire) (simp_all add: t o)
  have s2: "step (drop 6 (main Map.empty), ?w)
              (Invoked (handler \<lparr>period = 1, handler = UpdateMotion, target = auv_mm\<rparr>)
                 (target \<lparr>period = 1, handler = UpdateMotion, target = auv_mm\<rparr>)
                 (models ?w (target \<lparr>period = 1, handler = UpdateMotion, target = auv_mm\<rparr>)))
              (drop 6 (main Map.empty), ?w)"
    by (rule step.Fire) (simp_all add: t o)
  from run.Snoc [OF run.Snoc [OF r0 s1] s2] show ?thesis
    by (simp add: sample_trace_def m' w)
qed

theorem init_once_before_timers_witness:
  "run (main Map.empty, world0) sample_trace (drop 6 (main Map.empty), at_spin Map.empty)
   \<and> length (filter is_init sample_trace) = 1
   \<and> length (filter is_invoked sample_trace) = 2
   \<and> list_all found_running sample_trace"
proof -
  have "length (filter is_init sample_trace) = 1"
    by (simp add: sample_trace_def main_def Let_def is_init_def is_init_stmt_def)
  moreover have "length (filter is_invoked sample_trace) = 2"
    by (simp add: sample_trace_def main_def Let_def is_invoked_def)
  ultimately show ?thesis
    using init_once_before_timers [OF sample_run] sample_run by (simp add: list_all_iff)
qed

text \<open>
  Claim C2. When \<^verbatim>\<open>ros::spin()\<close> is entered there are exactly two timers, both bound to
  the one \<^verbatim>\<open>AUVMotionModel\<close> that exists: \<^verbatim>\<open>updateMotion\<close> with the period read from
  \<^verbatim>\<open>odom_rate\<close> and \<^verbatim>\<open>updateMeas\<close> with the period read from \<^verbatim>\<open>meas_rate\<close>. Each
  period is the value of its own parameter, whatever the other is, and 1 when its
  parameter is absent.
\<close>

theorem timers_scheduled:
  "timers (at_spin ps) =
     [\<lparr>period = (case ps ''odom_rate'' of Some v \<Rightarrow> v | None \<Rightarrow> 1),
        handler = UpdateMotion, target = auv_mm\<rparr>,
      \<lparr>period = (case ps ''meas_rate'' of Some v \<Rightarrow> v | None \<Rightarrow> 1),
        handler = UpdateMeas, target = auv_mm\<rparr>]
   \<and> dom (models (at_spin ps)) = {auv_mm}
   \<and> map period (timers (at_spin (ps(''odom_rate'' \<mapsto> a, ''meas_rate'' \<mapsto> b)))) = [a, b]
   \<and> map period (timers (at_spin (ps(''odom_rate'' \<mapsto> a, ''meas_rate'' := None)))) = [a, 1]
   \<and> map period (timers (at_spin (ps(''odom_rate'' := None, ''meas_rate'' \<mapsto> b)))) = [1, b]
   \<and> map period (timers (at_spin Map.empty)) = [1, 1]"
  by (simp add: at_spin_def main_def Let_def world0_def param_def)


section \<open>Properties of the launch description\<close>

lemma resolve_args_Cons:
  "subst env (arg_default a) \<noteq> None \<Longrightarrow>
   resolve_args given env (a # as) =
     resolve_args given
       ((arg_name a, arg_or given (arg_name a) (the (subst env (arg_default a)))) # env) as"
  by (auto simp: arg_or_def split: option.split)

lemma params_same: "debug_params = quiet_params"
  by (simp add: debug_params_def quiet_params_def)

text \<open>The arguments of the launch file, resolved for any values given by the caller.\<close>

lemma launch_env:
  "resolve_args given [] (args auv_pf_launch) =
     Some
      [(''average_mbes_topic'',
          arg_or given ''average_mbes_topic''
            (''/'' @ arg_or given ''filter'' ''pf'' @ ''/avg_mbes'')),
       (''particle_sim_mbes_topic'',
          arg_or given ''particle_sim_mbes_topic''
            (''/'' @ arg_or given ''filter'' ''pf'' @ ''/sim_mbes'')),
       (''particle_poses_topic'',
          arg_or given ''particle_poses_topic''
            (''/'' @ arg_or given ''filter'' ''pf'' @ ''/particle_poses'')),
       (''average_pose_topic'',
          arg_or given ''average_pose_topic''
            (''/'' @ arg_or given ''filter'' ''pf'' @ ''/avg_pose'')),
       (''mbes_pings_topic'',
          arg_or given ''mbes_pings_topic''
            (''/'' @ arg_or given ''mode'' ''sim'' @ ''/mbes_pings'')),
       (''odometry_topic'',
          arg_or given ''odometry_topic'' (''/'' @ arg_or given ''mode'' ''sim'' @ ''/odom'')),
       (''odom_frame'', arg_or given ''odom_frame'' ''odom''),
       (''map_frame'', arg_or given ''map_frame'' ''map''),
       (''measurement_covariance'', arg_or given ''measurement_covariance'' ''0.1''),
       (''motion_covariance'',
          arg_or given ''motion_covariance'' ''[0, 0, 0.0, 0.0, 0.0, 0.00]''),
       (''init_covariance'', arg_or given ''init_covariance'' ''[0, 0, 0.0, 0.0, 0.0, 0.0]''),
       (''particle_count'', arg_or given ''particle_count'' ''1''),
       (''filter'', arg_or given ''filter'' ''pf''),
       (''debug_mode'', arg_or given ''debug_mode'' ''True''),
       (''mode'', arg_or given ''mode'' ''sim'')]"
  by (simp add: auv_pf_launch_def resolve_args_Cons del: resolve_args.simps(2))

lemma launch_groups:
  "groups auv_pf_launch =
     [\<lparr>cond = Unless [ArgRef ''debug_mode''], nodes = [quiet_node]\<rparr>,
      \<lparr>cond = If [ArgRef ''debug_mode''], nodes = [debug_node]\<rparr>]"
  by (simp add: auv_pf_launch_def)

text \<open>The parameters with which the node is started, in the order of the file.\<close>

lemma launch_params:
  "start_params (the (resolve_args given [] (args auv_pf_launch))) quiet_params =
     Some
      [\<lparr>sp_name = ''particle_count'', sp_type = Some ''int'',
          sp_value = arg_or given ''particle_count'' ''1''\<rparr>,
       \<lparr>sp_name = ''init_covariance'', sp_type = None,
          sp_value = arg_or given ''init_covariance'' ''[0, 0, 0.0, 0.0, 0.0, 0.0]''\<rparr>,
       \<lparr>sp_name = ''measurement_covariance'', sp_type = None,
          sp_value = arg_or given ''measurement_covariance'' ''0.1''\<rparr>,
       \<lparr>sp_name = ''motion_covariance'', sp_type = None,
          sp_value = arg_or given ''motion_covariance'' ''[0, 0, 0.0, 0.0, 0.0, 0.00]''\<rparr>,
       \<lparr>sp_name = ''map_frame'', sp_type = None,
          sp_value = arg_or given ''map_frame'' ''map''\<rparr>,
       \<lparr>sp_name = ''odom_frame'', sp_type = None,
          sp_value = arg_or given ''odom_frame'' ''odom''\<rparr>,
       \<lparr>sp_name = ''odometry_topic'', sp_type = None,
          sp_value =
            arg_or given ''odometry_topic'' (''/'' @ arg_or given ''mode'' ''sim'' @ ''/odom'')\<rparr>,
       \<lparr>sp_name = ''mbes_pings_topic'', sp_type = None,
          sp_value =
            arg_or given ''mbes_pings_topic''
              (''/'' @ arg_or given ''mode'' ''sim'' @ ''/mbes_pings'')\<rparr>,
       \<lparr>sp_name = ''average_pose_topic'', sp_type = None,
          sp_value =
            arg_or given ''average_pose_topic''
              (''/'' @ arg_or given ''filter'' ''pf'' @ ''/avg_pose'')\<rparr>,
       \<lparr>sp_name = ''average_mbes_topic'', sp_type = None,
          sp_value =
            arg_or given ''average_mbes_topic''
              (''/'' @ arg_or given ''filter'' ''pf'' @ ''/avg_mbes'')\<rparr>,
       \<lparr>sp_name = ''particle_poses_topic'', sp_type = None,
          sp_value =
            arg_or given ''particle_poses_topic''
              (''/'' @ arg_or given ''filter'' ''pf'' @ ''/particle_poses'')\<rparr>,
       \<lparr>sp_name = ''particle_sim_mbes_topic'', sp_type = None,
          sp_value =
            arg_or given ''particle_sim_mbes_topic''
              (''/'' @ arg_or given ''filter'' ''pf'' @ ''/sim_mbes'')\<rparr>]"
  by (simp add: launch_env quiet_params_def)

lemma started:
  assumes "bool_attr (arg_or given ''debug_mode'' ''True'') = Some b"
  shows "roslaunch auv_pf_launch given =
     Some [\<lparr>sn_type = ''auv_pf.py'', sn_pkg = ''auv_particle_filter'', sn_name = ''auv_pf'',
            sn_output = (if b then ''screen'' else ''log''),
            sn_params =
              the (start_params (the (resolve_args given [] (args auv_pf_launch)))
                     quiet_params)\<rparr>]"
proof -
  have e: "enabled (the (resolve_args given [] (args auv_pf_launch))) (If [ArgRef ''debug_mode''])
             = Some b"
      "enabled (the (resolve_args given [] (args auv_pf_launch)))
             (Unless [ArgRef ''debug_mode'']) = Some (\<not> b)"
    using assms by (simp_all add: launch_env)
  have n: "start_nodes (the (resolve_args given [] (args auv_pf_launch))) [quiet_node] =
             Some [\<lparr>sn_type = ''auv_pf.py'', sn_pkg = ''auv_particle_filter'',
                    sn_name = ''auv_pf'', sn_output = ''log'',
                    sn_params = the (start_params
                      (the (resolve_args given [] (args auv_pf_launch))) quiet_params)\<rparr>]"
       "start_nodes (the (resolve_args given [] (args auv_pf_launch))) [debug_node] =
             Some [\<lparr>sn_type = ''auv_pf.py'', sn_pkg = ''auv_particle_filter'',
                    sn_name = ''auv_pf'', sn_output = ''screen'',
                    sn_params = the (start_params
                      (the (resolve_args given [] (args auv_pf_launch))) quiet_params)\<rparr>]"
    by (simp_all add: start_node_def quiet_node_def debug_node_def params_same launch_params)
  have "roslaunch auv_pf_launch given =
          start_groups (the (resolve_args given [] (args auv_pf_launch))) (groups auv_pf_launch)"
    by (simp add: roslaunch_def launch_env)
  also have "\<dots> = Some [\<lparr>sn_type = ''auv_pf.py'', sn_pkg = ''auv_particle_filter'',
            sn_name = ''auv_pf'', sn_output = (if b then ''screen'' else ''log''),
            sn_params =
              the (start_params (the (resolve_args given [] (args auv_pf_launch)))
                     quiet_params)\<rparr>]"
    unfolding launch_groups by (cases b) (simp_all add: e n del: start_nodes.simps enabled.simps)
  finally show ?thesis .
qed


lemma launch_params_names:
  "map sp_name (the (start_params (the (resolve_args given [] (args auv_pf_launch)))
      quiet_params)) =
     [''particle_count'', ''init_covariance'', ''measurement_covariance'',
      ''motion_covariance'', ''map_frame'', ''odom_frame'', ''odometry_topic'',
      ''mbes_pings_topic'', ''average_pose_topic'', ''average_mbes_topic'',
      ''particle_poses_topic'', ''particle_sim_mbes_topic'']"
  by (simp add: launch_params)

lemma node_param_names:
  "map param_name quiet_params =
     [''particle_count'', ''init_covariance'', ''measurement_covariance'',
      ''motion_covariance'', ''map_frame'', ''odom_frame'', ''odometry_topic'',
      ''mbes_pings_topic'', ''average_pose_topic'', ''average_mbes_topic'',
      ''particle_poses_topic'', ''particle_sim_mbes_topic'']"
  by (simp add: quiet_params_def)

lemma names_recognized:
  "set [''particle_count'', ''init_covariance'', ''measurement_covariance'',
      ''motion_covariance'', ''map_frame'', ''odom_frame'', ''odometry_topic'',
      ''mbes_pings_topic'', ''average_pose_topic'', ''average_mbes_topic'',
      ''particle_poses_topic'', ''particle_sim_mbes_topic''] = set recognized_options"
proof -
  define names where "names =
     [''particle_count'', ''init_covariance'', ''measurement_covariance'',
      ''motion_covariance'', ''map_frame'', ''odom_frame'', ''odometry_topic'',
      ''mbes_pings_topic'', ''average_pose_topic'', ''average_mbes_topic'',
      ''particle_poses_topic'', ''particle_sim_mbes_topic'']"
  have 1: "list_all (\<lambda>k. k \<in> set recognized_options) names"
    by (simp add: names_def recognized_options_def)
  have 2: "list_all (\<lambda>k. k \<in> set names) recognized_options"
    by (simp add: names_def recognized_options_def)
  from 1 2 have "set names = set recognized_options"
    unfolding list_all_iff by blast
  then show ?thesis by (simp only: names_def)
qed

lemma parse_default_covariances:
  "parse_real_list ''[0, 0, 0.0, 0.0, 0.0, 0.0]'' = Some [0, 0, 0, 0, 0, 0]"
  "parse_real_list ''[0, 0, 0.0, 0.0, 0.0, 0.00]'' = Some [0, 0, 0, 0, 0, 0]"
  by (simp_all add: parse_real_list_def trim_def parse_decimal_def parse_nat_def digit_def)

lemma parse_default_scalars:
  "parse_nat ''1'' = Some 1" "parse_decimal ''0.1'' = Some (1 / 10)"
  by (simp_all add: parse_decimal_def parse_nat_def digit_def)

lemma bool_attr_True: "bool_attr ''True'' = Some True"
  by (simp add: bool_attr_def lower_def)

lemma bool_attr_false: "bool_attr ''false'' = Some False"
  by (simp add: bool_attr_def lower_def)

text \<open>The node that the launch file starts when the caller gives no argument.\<close>

lemma default_launch:
  "roslaunch auv_pf_launch Map.empty =
     Some [\<lparr>sn_type = ''auv_pf.py'', sn_pkg = ''auv_particle_filter'', sn_name = ''auv_pf'',
            sn_output = ''screen'',
            sn_params =
              the (start_params (the (resolve_args Map.empty [] (args auv_pf_launch)))
                     quiet_params)\<rparr>]"
  using started [of Map.empty True] by (simp add: arg_or_def bool_attr_True)

lemma default_delivered:
  assumes "sn_params n =
     the (start_params (the (resolve_args Map.empty [] (args auv_pf_launch))) quiet_params)"
  shows "delivered n ''particle_count'' = Some ''1''"
    and "delivered n ''init_covariance'' = Some ''[0, 0, 0.0, 0.0, 0.0, 0.0]''"
    and "delivered n ''motion_covariance'' = Some ''[0, 0, 0.0, 0.0, 0.0, 0.00]''"
    and "delivered n ''measurement_covariance'' = Some ''0.1''"
  by (simp_all add: delivered_def assms launch_params arg_or_def)

text \<open>
  Claim C7. The arguments that the launch file declares under "Define args" are the
  twelve options of section 6 of the specification. Each of the two \<^verbatim>\<open>auv_pf\<close> node
  declarations has exactly these twelve parameters, each once and each bound to the
  argument of its own name. For every boolean \<^verbatim>\<open>debug_mode\<close> the node that is started
  receives every one of them, with the caller's value whenever the caller gives one;
  \<^verbatim>\<open>particle_count\<close> is typed \<^verbatim>\<open>int\<close>. The defaults read as an integer, two lists of
  six reals and one real.
\<close>

theorem recognized_options_delivered:
  assumes "bool_attr (arg_or given ''debug_mode'' ''True'') = Some b"
  shows "map arg_name (drop 3 (args auv_pf_launch)) = recognized_options
       \<and> set (map param_name (params quiet_node)) = set recognized_options
       \<and> distinct (map param_name (params quiet_node))
       \<and> params debug_node = params quiet_node
       \<and> list_all (\<lambda>p. param_value p = [ArgRef (param_name p)]) (params quiet_node)
       \<and> (\<exists>n. roslaunch auv_pf_launch given = Some [n]
              \<and> set (map sp_name (sn_params n)) = set recognized_options
              \<and> length (sn_params n) = 12
              \<and> (\<forall>k \<in> set recognized_options.
                    delivered n k \<noteq> None \<and> (\<forall>v. given k = Some v \<longrightarrow> delivered n k = Some v))
              \<and> map_of (map (\<lambda>p. (sp_name p, sp_type p)) (sn_params n)) ''particle_count''
                    = Some (Some ''int''))
       \<and> (\<exists>n. roslaunch auv_pf_launch Map.empty = Some [n]
              \<and> Option.bind (delivered n ''particle_count'') parse_nat = Some 1
              \<and> map_option length (Option.bind (delivered n ''init_covariance'') parse_real_list)
                    = Some 6
              \<and> map_option length
                    (Option.bind (delivered n ''motion_covariance'') parse_real_list) = Some 6
              \<and> Option.bind (delivered n ''measurement_covariance'') parse_decimal
                    = Some (1 / 10))"
proof (intro conjI)
  show "map arg_name (drop 3 (args auv_pf_launch)) = recognized_options"
    by (simp add: auv_pf_launch_def recognized_options_def)
  show "set (map param_name (params quiet_node)) = set recognized_options"
    by (simp only: quiet_node_def node_decl.simps node_param_names names_recognized)
  show "distinct (map param_name (params quiet_node))"
    by (simp add: quiet_node_def node_param_names)
  show "params debug_node = params quiet_node"
    by (simp add: quiet_node_def debug_node_def params_same)
  show "list_all (\<lambda>p. param_value p = [ArgRef (param_name p)]) (params quiet_node)"
    by (simp add: quiet_node_def quiet_params_def)
next
  let ?ps = "the (start_params (the (resolve_args given [] (args auv_pf_launch))) quiet_params)"
  let ?n = "\<lparr>sn_type = ''auv_pf.py'', sn_pkg = ''auv_particle_filter'', sn_name = ''auv_pf'',
            sn_output = (if b then ''screen'' else ''log''), sn_params = ?ps\<rparr>"
  have 1: "roslaunch auv_pf_launch given = Some [?n]"
    by (rule started [OF assms])
  have 2: "set (map sp_name (sn_params ?n)) = set recognized_options"
    by (simp only: started_node.simps launch_params_names names_recognized)
  have 3: "length (sn_params ?n) = 12"
    by (simp add: launch_params)
  have 4: "\<forall>k \<in> set recognized_options.
             delivered ?n k \<noteq> None \<and> (\<forall>v. given k = Some v \<longrightarrow> delivered ?n k = Some v)"
    by (simp add: recognized_options_def delivered_def launch_params arg_or_def)
  have 5: "map_of (map (\<lambda>p. (sp_name p, sp_type p)) (sn_params ?n)) ''particle_count''
             = Some (Some ''int'')"
    by (simp add: launch_params)
  from 1 2 3 4 5
  show "\<exists>n. roslaunch auv_pf_launch given = Some [n]
              \<and> set (map sp_name (sn_params n)) = set recognized_options
              \<and> length (sn_params n) = 12
              \<and> (\<forall>k \<in> set recognized_options.
                    delivered n k \<noteq> None \<and> (\<forall>v. given k = Some v \<longrightarrow> delivered n k = Some v))
              \<and> map_of (map (\<lambda>p. (sp_name p, sp_type p)) (sn_params n)) ''particle_count''
                    = Some (Some ''int'')"
    by blast
next
  show "\<exists>n. roslaunch auv_pf_launch Map.empty = Some [n]
              \<and> Option.bind (delivered n ''particle_count'') parse_nat = Some 1
              \<and> map_option length (Option.bind (delivered n ''init_covariance'') parse_real_list)
                    = Some 6
              \<and> map_option length
                    (Option.bind (delivered n ''motion_covariance'') parse_real_list) = Some 6
              \<and> Option.bind (delivered n ''measurement_covariance'') parse_decimal
                    = Some (1 / 10)"
    by (simp add: default_launch default_delivered parse_default_covariances
          parse_default_scalars)
qed

theorem recognized_options_delivered_witness:
  "bool_attr (arg_or [''particle_count'' \<mapsto> ''50''] ''debug_mode'' ''True'') = Some True
   \<and> (\<exists>n. roslaunch auv_pf_launch [''particle_count'' \<mapsto> ''50''] = Some [n]
          \<and> length (sn_params n) = 12
          \<and> delivered n ''particle_count'' = Some ''50'')"
proof -
  have h: "bool_attr (arg_or [''particle_count'' \<mapsto> ''50''] ''debug_mode'' ''True'') = Some True"
    by (simp add: arg_or_def bool_attr_True)
  from recognized_options_delivered [OF h]
  obtain n where n: "roslaunch auv_pf_launch [''particle_count'' \<mapsto> ''50''] = Some [n]"
      "length (sn_params n) = 12"
      "\<forall>k \<in> set recognized_options.
         delivered n k \<noteq> None \<and>
         (\<forall>v. [''particle_count'' \<mapsto> ''50''] k = Some v \<longrightarrow> delivered n k = Some v)"
    by blast
  from n(3) have "delivered n ''particle_count'' = Some ''50''"
    by (simp add: recognized_options_def)
  with h n(1,2) show ?thesis by blast
qed

text \<open>
  Claim C8. With no argument given, the launch file delivers \<^verbatim>\<open>init_covariance\<close> and
  \<^verbatim>\<open>motion_covariance\<close> as lists of six entries, ordered x, y, z, roll, pitch, yaw,
  whose z, roll and pitch entries (indices 2, 3 and 4) are 0; a NoiseModel sample under
  either of them is therefore 0 on z, roll and pitch, whatever the variates drawn.
\<close>

theorem default_covariances_planar:
  "\<exists>n ic mc. roslaunch auv_pf_launch Map.empty = Some [n]
      \<and> Option.bind (delivered n ''init_covariance'') parse_real_list = Some ic
      \<and> Option.bind (delivered n ''motion_covariance'') parse_real_list = Some mc
      \<and> length ic = 6 \<and> ic ! 2 = 0 \<and> ic ! 3 = 0 \<and> ic ! 4 = 0
      \<and> length mc = 6 \<and> mc ! 2 = 0 \<and> mc ! 3 = 0 \<and> mc ! 4 = 0
      \<and> (\<forall>g0 g1 g2 g3 g4 g5. \<exists>d e.
            sample ic [g0, g1, g2, g3, g4, g5] = Inr d
            \<and> pz d = 0 \<and> roll d = 0 \<and> pitch d = 0
            \<and> sample mc [g0, g1, g2, g3, g4, g5] = Inr e
            \<and> pz e = 0 \<and> roll e = 0 \<and> pitch e = 0)"
  by (simp add: default_launch default_delivered parse_default_covariances sample_def
        valid_covariance_def)

text \<open>
  Claim C10. The two groups are guarded by \<^verbatim>\<open>unless\<close> and \<^verbatim>\<open>if\<close> of the same
  argument, and their node declarations differ in the output attribute only. Whenever
  \<^verbatim>\<open>debug_mode\<close> (given, or its default) is a boolean, exactly one \<^verbatim>\<open>auv_pf\<close> node is
  started, with output \<^verbatim>\<open>screen\<close> when it holds and \<^verbatim>\<open>log\<close> when it does not; launching
  with the opposite boolean and the same other arguments starts the same node, with the
  same parameter names, types and values, except for the output.
\<close>

theorem debug_and_quiet_branches:
  assumes "bool_attr (arg_or given ''debug_mode'' ''True'') = Some b"
  shows "map cond (groups auv_pf_launch)
           = [Unless [ArgRef ''debug_mode''], If [ArgRef ''debug_mode'']]
       \<and> map nodes (groups auv_pf_launch) = [[quiet_node], [debug_node]]
       \<and> debug_node = quiet_node\<lparr>node_output := ''screen''\<rparr>
       \<and> node_output quiet_node = ''log''
       \<and> (\<exists>n. roslaunch auv_pf_launch given = Some [n]
              \<and> sn_name n = ''auv_pf''
              \<and> sn_output n = (if b then ''screen'' else ''log'')
              \<and> (\<forall>s. bool_attr s = Some (\<not> b) \<longrightarrow>
                    roslaunch auv_pf_launch (given(''debug_mode'' \<mapsto> s))
                      = Some [n\<lparr>sn_output := (if b then ''log'' else ''screen'')\<rparr>]))"
proof (intro conjI)
  show "map cond (groups auv_pf_launch)
          = [Unless [ArgRef ''debug_mode''], If [ArgRef ''debug_mode'']]"
    by (simp add: launch_groups)
  show "map nodes (groups auv_pf_launch) = [[quiet_node], [debug_node]]"
    by (simp add: launch_groups)
  show "debug_node = quiet_node\<lparr>node_output := ''screen''\<rparr>"
    by (simp add: debug_node_def quiet_node_def params_same)
  show "node_output quiet_node = ''log''"
    by (simp add: quiet_node_def)
next
  let ?ps = "\<lambda>g. the (start_params (the (resolve_args g [] (args auv_pf_launch))) quiet_params)"
  have same: "?ps (given(''debug_mode'' \<mapsto> s)) = ?ps given" for s
    by (simp add: launch_params arg_or_def)
  have 1: "roslaunch auv_pf_launch given =
     Some [\<lparr>sn_type = ''auv_pf.py'', sn_pkg = ''auv_particle_filter'', sn_name = ''auv_pf'',
            sn_output = (if b then ''screen'' else ''log''), sn_params = ?ps given\<rparr>]"
    by (rule started [OF assms])
  have 2: "roslaunch auv_pf_launch (given(''debug_mode'' \<mapsto> s)) =
     Some [\<lparr>sn_type = ''auv_pf.py'', sn_pkg = ''auv_particle_filter'', sn_name = ''auv_pf'',
            sn_output = (if b then ''log'' else ''screen''), sn_params = ?ps given\<rparr>]"
    if "bool_attr s = Some (\<not> b)" for s
    using started [of "given(''debug_mode'' \<mapsto> s)" "\<not> b"] that
    by (simp add: arg_or_def same)
  show "\<exists>n. roslaunch auv_pf_launch given = Some [n]
              \<and> sn_name n = ''auv_pf''
              \<and> sn_output n = (if b then ''screen'' else ''log'')
              \<and> (\<forall>s. bool_attr s = Some (\<not> b) \<longrightarrow>
                    roslaunch auv_pf_launch (given(''debug_mode'' \<mapsto> s))
                      = Some [n\<lparr>sn_output := (if b then ''log'' else ''screen'')\<rparr>])"
    using 1 2 by simp
qed

theorem debug_and_quiet_branches_witness:
  "bool_attr (arg_or Map.empty ''debug_mode'' ''True'') = Some True
   \<and> bool_attr ''false'' = Some (\<not> True)
   \<and> (\<exists>n. roslaunch auv_pf_launch Map.empty = Some [n]
          \<and> sn_output n = ''screen''
          \<and> roslaunch auv_pf_launch [''debug_mode'' \<mapsto> ''false'']
               = Some [n\<lparr>sn_output := ''log''\<rparr>])"
proof -
  have h: "bool_attr (arg_or Map.empty ''debug_mode'' ''True'') = Some True"
    by (simp add: arg_or_def bool_attr_True)
  from debug_and_quiet_branches [OF h]
  obtain n where n: "roslaunch auv_pf_launch Map.empty = Some [n]"
      "sn_output n = (if True then ''screen'' else ''log'')"
      "\<forall>s. bool_attr s = Some (\<not> True) \<longrightarrow>
         roslaunch auv_pf_launch (Map.empty(''debug_mode'' \<mapsto> s))
           = Some [n\<lparr>sn_output := (if True then ''log'' else ''screen'')\<rparr>]"
    by blast
  from n(3) bool_attr_false
  have "roslaunch auv_pf_launch [''debug_mode'' \<mapsto> ''false''] = Some [n\<lparr>sn_output := ''log''\<rparr>]"
    by simp
  with h n(1,2) bool_attr_false show ?thesis by auto
qed


section \<open>Properties of the estimation core\<close>

subsection \<open>atan2 on the unit circle\<close>

lemma cos_pos_range:
  assumes "- pi < a" "a \<le> pi" "0 < cos a"
  shows "- (pi / 2) < a \<and> a < pi / 2"
proof -
  have "\<not> pi / 2 \<le> a"
  proof
    assume "pi / 2 \<le> a"
    then have "cos a \<le> cos (pi / 2)"
      using assms(2) by (intro cos_monotone_0_pi_le) auto
    with assms(3) show False by simp
  qed
  moreover have "\<not> a \<le> - (pi / 2)"
  proof
    assume "a \<le> - (pi / 2)"
    then have "cos (- a) \<le> cos (pi / 2)"
      using assms(1) by (intro cos_monotone_0_pi_le) auto
    with assms(3) show False by simp
  qed
  ultimately show ?thesis by simp
qed

lemma cos_neg_range:
  assumes "- pi < a" "a \<le> pi" "cos a < 0"
  shows "a < - (pi / 2) \<or> pi / 2 < a"
proof (rule ccontr)
  assume "\<not> (a < - (pi / 2) \<or> pi / 2 < a)"
  then have "- (pi / 2) \<le> a" "a \<le> pi / 2" by simp_all
  then have "0 \<le> cos a" by (rule cos_ge_zero)
  with assms(3) show False by simp
qed

lemma sin_nonneg_range:
  assumes "- pi < a" "a \<le> pi" "0 \<le> sin a"
  shows "0 \<le> a"
proof (rule ccontr)
  assume "\<not> 0 \<le> a"
  then have "0 < - a" "- a < pi" using assms(1) by simp_all
  then have "0 < sin (- a)" by (rule sin_gt_zero)
  with assms(3) show False by simp
qed

lemma sin_neg_range:
  assumes "- pi < a" "a \<le> pi" "sin a < 0"
  shows "a < 0"
proof (rule ccontr)
  assume "\<not> a < 0"
  then have "0 \<le> a" by simp
  then have "0 \<le> sin a" using assms(2) by (rule sin_ge_zero)
  with assms(3) show False by simp
qed

lemma atan2_sin_cos:
  assumes "- pi < a" and "a \<le> pi"
  shows "atan2 (sin a) (cos a) = a"
proof -
  consider "0 < cos a" | "cos a < 0" "0 \<le> sin a" | "cos a < 0" "sin a < 0" | "cos a = 0"
    by linarith
  then show ?thesis
  proof cases
    case 1
    with cos_pos_range [OF assms] have "arctan (tan a) = a" by (simp add: arctan_tan)
    with 1 show ?thesis by (simp add: atan2_def tan_def)
  next
    case 2
    with cos_neg_range [OF assms] sin_nonneg_range [OF assms] have r: "pi / 2 < a" by auto
    have "arctan (tan (a - pi)) = a - pi"
      using r assms(2) by (intro arctan_tan) auto
    moreover have "tan (a - pi) = tan a"
      using tan_periodic_pi [of "a - pi"] by simp
    ultimately have "arctan (sin a / cos a) = a - pi" by (simp add: tan_def)
    with 2 show ?thesis by (simp add: atan2_def)
  next
    case 3
    with cos_neg_range [OF assms] sin_neg_range [OF assms] have r: "a < - (pi / 2)" by auto
    have "arctan (tan (a + pi)) = a + pi"
      using r assms(1) by (intro arctan_tan) auto
    moreover have "tan (a + pi) = tan a"
      by (rule tan_periodic_pi)
    ultimately have "arctan (sin a / cos a) = a + pi" by (simp add: tan_def)
    with 3 show ?thesis by (simp add: atan2_def)
  next
    case 4
    have nz: "sin a \<noteq> 0"
      using sin_cos_squared_add [of a] 4 by auto
    show ?thesis
    proof (cases "0 < sin a")
      case True
      with sin_nonneg_range [OF assms] have "0 \<le> a" by simp
      then have "a = pi / 2"
        using assms(2) 4 by (intro cos_inj_pi [of a "pi / 2"]) simp_all
      moreover have "atan2 (sin a) (cos a) = pi / 2"
        using 4 True by (simp add: atan2_def)
      ultimately show ?thesis by simp
    next
      case False
      with nz have neg: "sin a < 0" by simp
      with sin_neg_range [OF assms] have "a < 0" by simp
      then have "- a = pi / 2"
        using assms(1) 4 by (intro cos_inj_pi [of "- a" "pi / 2"]) simp_all
      then have "a = - (pi / 2)" by simp
      moreover have "atan2 (sin a) (cos a) = - (pi / 2)"
        using 4 neg by (simp add: atan2_def)
      ultimately show ?thesis by simp
    qed
  qed
qed


subsection \<open>Weights\<close>

lemma unnormalized_length: "length (unnormalized lik ps) = length ps"
  by (simp add: unnormalized_def)

lemma normalized_weights:
  "length us = length ps \<Longrightarrow>
     map weight (map (\<lambda>(p, u). p\<lparr>weight := u / t\<rparr>) (zip ps us)) = map (\<lambda>u. u / t) us"
  by (induction ps us rule: list_induct2') auto

lemma sum_list_scaled: "sum_list (map (\<lambda>u. u / t) us) = sum_list us / (t :: real)"
  by (induction us) (auto simp: add_divide_distrib)

lemma uniform_weights:
  "map weight (map (\<lambda>p. p\<lparr>weight := c\<rparr>) ps) = replicate (length ps) c"
  by (induction ps) auto

lemma sum_list_uniform: "0 < n \<Longrightarrow> sum_list (replicate n (1 / real n)) = 1"
  by (simp add: sum_list_replicate)

lemma update_ready:
  "state f = Ready \<Longrightarrow>
     update lik f =
       Inr (f\<lparr>particles :=
              (if sum_list (unnormalized lik (particles f)) = 0
               then map (\<lambda>p. p\<lparr>weight := 1 / real (length (particles f))\<rparr>) (particles f)
               else map (\<lambda>(p, u). p\<lparr>weight := u / sum_list (unnormalized lik (particles f))\<rparr>)
                      (zip (particles f) (unnormalized lik (particles f))))\<rparr>)"
  by (simp add: update_def Let_def)

lemma update_sum:
  assumes "state f = Ready" and "particles f \<noteq> []"
  shows "\<exists>f'. update lik f = Inr f' \<and> sum_list (weights f') = 1
           \<and> length (particles f') = length (particles f)"
proof (cases "sum_list (unnormalized lik (particles f)) = 0")
  case True
  with assms show ?thesis
    by (simp add: update_ready weights_def uniform_weights sum_list_uniform del: map_map)
next
  case False
  with assms show ?thesis
    by (simp add: update_ready weights_def normalized_weights unnormalized_length
          sum_list_scaled del: map_map)
qed

subsection \<open>Resampling\<close>

lemma select_length: "length (select cs j pts) = length pts"
  by (induction cs j pts rule: select.induct) auto

lemma select_bound:
  "cs \<noteq> [] \<Longrightarrow> i \<in> set (select cs j pts) \<Longrightarrow> j \<le> i \<and> i < j + length cs"
proof (induction cs j pts rule: select.induct)
  case (1 cs j)
  then show ?case by simp
next
  case (2 j p ps)
  then show ?case by simp
next
  case (3 c cs j p ps)
  show ?case
  proof (cases "p < c \<or> cs = []")
    case True
    with 3 show ?thesis by auto
  next
    case False
    with 3 have "Suc j \<le> i \<and> i < Suc j + length cs" by auto
    then show ?thesis by simp
  qed
qed

lemma cumsum_length: "length (cumsum acc ws) = length ws"
  by (induction ws arbitrary: acc) auto

lemma resample_length: "length (systematic_resample u ps) = length ps"
  by (simp add: systematic_resample_def select_length positions_def)

lemma resample_subset: "set (systematic_resample u ps) \<subseteq> set ps"
proof (cases "ps = []")
  case True
  then show ?thesis by (simp add: systematic_resample_def positions_def)
next
  case False
  then have ne: "cumsum 0 (map weight ps) \<noteq> []"
    using cumsum_length [of 0 "map weight ps"] by auto
  show ?thesis
  proof
    fix q
    assume "q \<in> set (systematic_resample u ps)"
    then obtain i where i: "i \<in> set (select (cumsum 0 (map weight ps)) 0 (positions u (length ps)))"
        and q: "q = ps ! i"
      by (auto simp: systematic_resample_def)
    from select_bound [OF ne i] have "i < length ps" by (simp add: cumsum_length)
    with q show "q \<in> set ps" by simp
  qed
qed

lemma maybeResample_length: "length (particles (maybeResample thr u f)) = length (particles f)"
  by (simp add: maybeResample_def Let_def resample_length)

lemma maybeResample_sum:
  assumes "particles f \<noteq> []" and "sum_list (weights f) = 1"
  shows "sum_list (weights (maybeResample thr u f)) = 1"
proof (cases "ess (map weight (particles f)) < thr")
  case True
  then have "weights (maybeResample thr u f)
               = replicate (length (particles f)) (1 / real (length (particles f)))"
    by (simp add: maybeResample_def Let_def weights_def uniform_weights resample_length
          del: map_map)
  with assms(1) show ?thesis by (simp add: sum_list_uniform)
next
  case False
  with assms(2) show ?thesis by (simp add: maybeResample_def Let_def)
qed

lemma squares_nonzero:
  assumes "sum_list ws = (1 :: real)"
  shows "sum_list (map (\<lambda>w. w\<^sup>2) ws) \<noteq> 0"
proof
  assume z: "sum_list (map (\<lambda>w. w\<^sup>2) ws) = 0"
  have "\<forall>x \<in> set (map (\<lambda>w. w\<^sup>2) ws). x = 0"
    using z by (subst (asm) sum_list_nonneg_eq_0_iff) auto
  then have "\<forall>w \<in> set ws. w = 0" by auto
  then have "sum_list ws = 0" by (induction ws) auto
  with assms show False by simp
qed

text \<open>
  Claim C3. In the Ready state, when the sum of the unnormalised weights is zero,
  \<^verbatim>\<open>update\<close> returns a filter (not an error) in which every particle has weight
  \<open>1 / particleCount\<close> and its pose unchanged; this is so in particular when every
  likelihood is 0.
\<close>

theorem degenerate_weights_reset:
  assumes "state f = Ready"
    and "sum_list (unnormalized lik (particles f)) = 0"
  shows "\<exists>f'. update lik f = Inr f'
           \<and> weights f' = replicate (length (particles f)) (1 / real (length (particles f)))
           \<and> map pose (particles f') = map pose (particles f)
           \<and> state f' = Ready
           \<and> update (\<lambda>q. 0) f = Inr f'"
proof -
  let ?f' = "f\<lparr>particles :=
               map (\<lambda>p. p\<lparr>weight := 1 / real (length (particles f))\<rparr>) (particles f)\<rparr>"
  have 1: "update lik f = Inr ?f'"
    using assms by (simp add: update_ready)
  have 2: "update (\<lambda>q. 0) f = Inr ?f'"
    using assms(1) by (simp add: update_ready unnormalized_def)
  have 3: "weights ?f' = replicate (length (particles f)) (1 / real (length (particles f)))"
    by (simp add: weights_def uniform_weights del: map_map)
  have 4: "map pose (particles ?f') = map pose (particles f)"
    by (simp add: comp_def)
  from 1 2 3 4 assms(1) show ?thesis by simp
qed

theorem degenerate_weights_reset_witness:
  "state \<lparr>state = Ready,
          particles = [\<lparr>pose = zero_pose, weight = 0\<rparr>, \<lparr>pose = zero_pose, weight = 0\<rparr>]\<rparr>
     = Ready
   \<and> sum_list (unnormalized (\<lambda>p. 1)
        (particles \<lparr>state = Ready,
                    particles = [\<lparr>pose = zero_pose, weight = 0\<rparr>,
                                 \<lparr>pose = zero_pose, weight = 0\<rparr>]\<rparr>)) = 0
   \<and> (\<exists>f'. update (\<lambda>p. 1)
               \<lparr>state = Ready,
                particles = [\<lparr>pose = zero_pose, weight = 0\<rparr>,
                             \<lparr>pose = zero_pose, weight = 0\<rparr>]\<rparr> = Inr f'
          \<and> weights f' = [1 / 2, 1 / 2])"
  using degenerate_weights_reset
    [of "\<lparr>state = Ready,
          particles = [\<lparr>pose = zero_pose, weight = 0\<rparr>, \<lparr>pose = zero_pose, weight = 0\<rparr>]\<rparr>"
        "\<lambda>p. 1"]
  by (auto simp: unnormalized_def numeral_2_eq_2)

text \<open>
  Claim C4. In the Ready state, when at least one particle has a nonzero likelihood,
  the weights after \<^verbatim>\<open>update\<close> sum to 1, so that the sum of their squares, by which
  the effective sample size divides, is not 0; and they sum to 1 again after
  \<^verbatim>\<open>maybeResample\<close>, for every threshold and every offset, with as many particles
  as before. More generally \<^verbatim>\<open>maybeResample\<close> keeps the sum at 1 on every non-empty
  population whose weights sum to 1.
\<close>

theorem weights_normalized:
  assumes "state f = Ready"
    and "\<exists>p \<in> set (particles f). lik (pose p) \<noteq> 0"
  shows "\<exists>f'. update lik f = Inr f'
           \<and> sum_list (weights f') = 1
           \<and> sum_list (map (\<lambda>w. w\<^sup>2) (weights f')) \<noteq> 0
           \<and> (\<forall>thr u. sum_list (weights (maybeResample thr u f')) = 1
                  \<and> length (particles (maybeResample thr u f')) = length (particles f))
           \<and> (\<forall>g thr u. particles g \<noteq> [] \<and> sum_list (weights g) = 1
                  \<longrightarrow> sum_list (weights (maybeResample thr u g)) = 1)"
proof -
  from assms(2) have ne: "particles f \<noteq> []" by auto
  from update_sum [OF assms(1) ne, of lik] obtain f' where f': "update lik f = Inr f'"
      "sum_list (weights f') = 1" "length (particles f') = length (particles f)"
    by blast
  from f'(3) ne have ne': "particles f' \<noteq> []" by auto
  have "sum_list (weights (maybeResample thr u f')) = 1
          \<and> length (particles (maybeResample thr u f')) = length (particles f)" for thr u
    using maybeResample_sum [OF ne' f'(2)] f'(3) by (simp add: maybeResample_length)
  moreover have "particles g \<noteq> [] \<and> sum_list (weights g) = 1
          \<longrightarrow> sum_list (weights (maybeResample thr u g)) = 1" for g thr u
    using maybeResample_sum by blast
  ultimately show ?thesis using f'(1,2) squares_nonzero [OF f'(2)] by blast
qed

theorem weights_normalized_witness:
  "state \<lparr>state = Ready,
          particles = [\<lparr>pose = zero_pose, weight = 1 / 4\<rparr>,
                       \<lparr>pose = zero_pose, weight = 3 / 4\<rparr>]\<rparr> = Ready
   \<and> list_ex (\<lambda>p. (\<lambda>q. 2 :: real) (pose p) \<noteq> 0)
        (particles \<lparr>state = Ready,
          particles = [\<lparr>pose = zero_pose, weight = 1 / 4\<rparr>,
                       \<lparr>pose = zero_pose, weight = 3 / 4\<rparr>]\<rparr>)
   \<and> (\<exists>f'. update (\<lambda>q. 2)
               \<lparr>state = Ready,
                particles = [\<lparr>pose = zero_pose, weight = 1 / 4\<rparr>,
                             \<lparr>pose = zero_pose, weight = 3 / 4\<rparr>]\<rparr> = Inr f'
          \<and> sum_list (weights f') = 1
          \<and> sum_list (weights (maybeResample 1 (1 / 2) f')) = 1)"
proof -
  let ?f = "\<lparr>state = Ready,
             particles = [\<lparr>pose = zero_pose, weight = 1 / 4\<rparr>,
                          \<lparr>pose = zero_pose, weight = 3 / 4\<rparr>]\<rparr>"
  have h1: "state ?f = Ready" by simp
  have h2: "\<exists>p \<in> set (particles ?f). (\<lambda>q. 2 :: real) (pose p) \<noteq> 0" by auto
  from weights_normalized [OF h1 h2] obtain f' where
    "update (\<lambda>q. 2) ?f = Inr f'" "sum_list (weights f') = 1"
    "\<forall>thr u. sum_list (weights (maybeResample thr u f')) = 1
        \<and> length (particles (maybeResample thr u f')) = length (particles ?f)"
    by blast
  then have "\<exists>f'. update (\<lambda>q. 2) ?f = Inr f' \<and> sum_list (weights f') = 1
          \<and> sum_list (weights (maybeResample 1 (1 / 2) f')) = 1"
    by blast
  with h1 show ?thesis by simp
qed


subsection \<open>Noise and composition\<close>

lemma mat_mul_identity_right: "mat_mul m ((1, 0, 0), (0, 1, 0), (0, 0, 1)) = m"
proof -
  obtain a b c d e f g h i where "m = ((a, b, c), (d, e, f), (g, h, i))"
    by (metis prod_cases3)
  then show ?thesis by simp
qed

lemma mat_mul_identity_left: "mat_mul ((1, 0, 0), (0, 1, 0), (0, 0, 1)) m = m"
proof -
  obtain a b c d e f g h i where "m = ((a, b, c), (d, e, f), (g, h, i))"
    by (metis prod_cases3)
  then show ?thesis by simp
qed

lemma mat_vec_zero: "mat_vec m (0, 0, 0) = (0, 0, 0)"
proof -
  obtain a b c d e f g h i where "m = ((a, b, c), (d, e, f), (g, h, i))"
    by (metis prod_cases3)
  then show ?thesis by simp
qed

lemma mat_vec_identity: "mat_vec ((1, 0, 0), (0, 1, 0), (0, 0, 1)) v = v"
  by (cases v) simp

lemma vec_add_zero: "vec_add (0, 0, 0) v = v" "vec_add v (0, 0, 0) = v"
  by (cases v; simp)+

lemma zero_transform:
  "to_transform zero_pose =
     \<lparr>rotation = ((1, 0, 0), (0, 1, 0), (0, 0, 1)), translation = (0, 0, 0)\<rparr>"
  by (simp add: to_transform_def zero_pose_def rot_x_def rot_y_def rot_z_def)

lemma sample_axis:
  assumes "i < 6" and "valid_covariance cov" and "cov ! i = 0"
  shows "\<exists>d. sample cov [g0, g1, g2, g3, g4, g5] = Inr d \<and> components d ! i = 0"
proof -
  from assms(1) have "i = 0 \<or> i = 1 \<or> i = 2 \<or> i = 3 \<or> i = 4 \<or> i = 5" by arith
  with assms(2,3) show ?thesis
    by (auto simp: sample_def components_def)
qed

lemma wrap_id:
  assumes "- pi < a" and "a \<le> pi"
  shows "wrap a = a"
proof -
  have "\<lceil>(a - pi) / (2 * pi)\<rceil> = 0"
  proof (rule ceiling_unique)
    show "of_int 0 - 1 < (a - pi) / (2 * pi)"
      using assms(1) pi_gt_zero by (simp add: pos_less_divide_eq)
    show "(a - pi) / (2 * pi) \<le> of_int 0"
      using assms(2) pi_gt_zero by (simp add: pos_divide_le_eq)
  qed
  then show ?thesis by (simp add: wrap_def)
qed

lemma add_zero_perturbation:
  assumes "normalized P"
  shows "add_perturbation P zero_pose = P"
  using assms by (simp add: add_perturbation_def zero_pose_def normalized_def wrap_id)

text \<open>
  Claim C5. Under the all-zero covariance diagonal the sample is the zero delta, whatever
  the six variates drawn. Composing any pose with it, on either side, leaves the
  rigid-body transform of the pose unchanged, and adding it to a pose whose angles are
  normalised returns that pose. More generally a zero variance on one axis makes the
  sample 0 on that axis.
\<close>

theorem zero_covariance_noop:
  "sample [0, 0, 0, 0, 0, 0] [g0, g1, g2, g3, g4, g5] = Inr zero_pose
   \<and> compose P zero_pose = to_transform P
   \<and> compose zero_pose P = to_transform P
   \<and> (normalized P \<longrightarrow> add_perturbation P zero_pose = P)
   \<and> (\<forall>i < 6. valid_covariance cov \<and> cov ! i = 0 \<longrightarrow>
         (\<exists>d. sample cov [g0, g1, g2, g3, g4, g5] = Inr d \<and> components d ! i = 0))"
proof (intro conjI allI impI)
  show "sample [0, 0, 0, 0, 0, 0] [g0, g1, g2, g3, g4, g5] = Inr zero_pose"
    by (simp add: sample_def valid_covariance_def zero_pose_def)
  show "compose P zero_pose = to_transform P"
    by (simp add: compose_def compose_transform_def zero_transform mat_mul_identity_right
          mat_vec_zero vec_add_zero del: mat_mul.simps mat_vec.simps)
  show "compose zero_pose P = to_transform P"
    by (simp add: compose_def compose_transform_def zero_transform mat_mul_identity_left
          mat_vec_identity vec_add_zero del: mat_mul.simps mat_vec.simps)
next
  assume "normalized P"
  then show "add_perturbation P zero_pose = P"
    by (rule add_zero_perturbation)
next
  fix i :: nat
  assume "i < 6" and "valid_covariance cov \<and> cov ! i = 0"
  then show "\<exists>d. sample cov [g0, g1, g2, g3, g4, g5] = Inr d \<and> components d ! i = 0"
    using sample_axis by blast
qed

theorem zero_covariance_noop_witness:
  "(2 :: nat) < 6 \<and> valid_covariance [1, 4, 0, 0, 0, 1] \<and> [1, 4, 0, 0, 0, 1 :: real] ! 2 = 0
   \<and> normalized (zero_pose\<lparr>px := 7, yaw := pi\<rparr>)
   \<and> add_perturbation (zero_pose\<lparr>px := 7, yaw := pi\<rparr>) zero_pose
        = zero_pose\<lparr>px := 7, yaw := pi\<rparr>
   \<and> (\<exists>d. sample [1, 4, 0, 0, 0, 1] [1, 1, 1, 1, 1, 1] = Inr d
          \<and> components d ! 2 = 0 \<and> px d = 1 \<and> py d = 2)"
proof -
  have h: "(2 :: nat) < 6" "valid_covariance [1, 4, 0, 0, 0, 1] \<and> [1, 4, 0, 0, 0, 1 :: real] ! 2 = 0"
    by (simp_all add: valid_covariance_def)
  have n: "normalized (zero_pose\<lparr>px := 7, yaw := pi\<rparr>)"
    by (simp add: normalized_def zero_pose_def)
  note t = zero_covariance_noop [of 1 1 1 1 1 1 "zero_pose\<lparr>px := 7, yaw := pi\<rparr>"
      "[1, 4, 0, 0, 0, 1]"]
  from t n have a: "add_perturbation (zero_pose\<lparr>px := 7, yaw := pi\<rparr>) zero_pose
        = zero_pose\<lparr>px := 7, yaw := pi\<rparr>"
    by blast
  from t h
  obtain d where d: "sample [1, 4, 0, 0, 0, 1] [1, 1, 1, 1, 1, 1] = Inr d" "components d ! 2 = 0"
    by blast
  from d(1) have "px d = 1 \<and> py d = 2"
    by (auto simp: sample_def valid_covariance_def)
  with h n a d show ?thesis by blast
qed

subsection \<open>The estimate\<close>

lemma foldl_accumulate:
  "foldl accumulate s ps =
     \<lparr>sx = sx s + weighted_sum px ps, sy = sy s + weighted_sum py ps,
      sz = sz s + weighted_sum pz ps,
      cos_roll = cos_roll s + weighted_sum (\<lambda>q. cos (roll q)) ps,
      sin_roll = sin_roll s + weighted_sum (\<lambda>q. sin (roll q)) ps,
      cos_pitch = cos_pitch s + weighted_sum (\<lambda>q. cos (pitch q)) ps,
      sin_pitch = sin_pitch s + weighted_sum (\<lambda>q. sin (pitch q)) ps,
      cos_yaw = cos_yaw s + weighted_sum (\<lambda>q. cos (yaw q)) ps,
      sin_yaw = sin_yaw s + weighted_sum (\<lambda>q. sin (yaw q)) ps\<rparr>"
proof (induction ps arbitrary: s)
  case Nil
  show ?case by (simp add: weighted_sum_def)
next
  case (Cons p ps)
  show ?case
    by (simp add: Cons.IH) (simp add: accumulate_def Let_def weighted_sum_def add.assoc)
qed

lemma estimate_sums:
  "estimate f =
     \<lparr>px = weighted_sum px (particles f), py = weighted_sum py (particles f),
      pz = weighted_sum pz (particles f),
      roll = atan2 (weighted_sum (\<lambda>q. sin (roll q)) (particles f))
                   (weighted_sum (\<lambda>q. cos (roll q)) (particles f)),
      pitch = atan2 (weighted_sum (\<lambda>q. sin (pitch q)) (particles f))
                    (weighted_sum (\<lambda>q. cos (pitch q)) (particles f)),
      yaw = atan2 (weighted_sum (\<lambda>q. sin (yaw q)) (particles f))
                  (weighted_sum (\<lambda>q. cos (yaw q)) (particles f))\<rparr>"
  by (simp add: estimate_def Let_def foldl_accumulate zero_sums_def)

lemma atan2_wrap:
  assumes "0 \<le> e" and "e < pi / 2" and "0 < w"
  shows "atan2 (w * sin (pi - e) + w * sin (- pi + e))
               (w * cos (pi - e) + w * cos (- pi + e)) = pi"
proof -
  have c: "0 < cos e" using assms(1,2) by (intro cos_gt_zero_pi) auto
  have s1: "sin (- pi + e) = - sin e" using sin_periodic_pi [of "- pi + e"] by simp
  have c1: "cos (- pi + e) = - cos e" using cos_periodic_pi [of "- pi + e"] by simp
  have y: "w * sin (pi - e) + w * sin (- pi + e) = 0" by (simp add: s1)
  have "0 < w * cos e" using c assms(3) by simp
  then have x: "w * cos (pi - e) + w * cos (- pi + e) < 0" by (simp add: c1)
  show ?thesis unfolding y using x by (simp add: atan2_def)
qed

lemma wrap_pair:
  assumes "0 \<le> e" and "e < pi / 2" and "0 < w"
    and "ang p1 = pi - e" and "ang p2 = - pi + e"
  shows "atan2 (weighted_sum (\<lambda>q. sin (ang q)) [\<lparr>pose = p1, weight = w\<rparr>, \<lparr>pose = p2, weight = w\<rparr>])
               (weighted_sum (\<lambda>q. cos (ang q)) [\<lparr>pose = p1, weight = w\<rparr>, \<lparr>pose = p2, weight = w\<rparr>])
           = pi"
    and "weighted_sum ang [\<lparr>pose = p1, weight = w\<rparr>, \<lparr>pose = p2, weight = w\<rparr>] = 0"
proof -
  have "atan2 (weighted_sum (\<lambda>q. sin (ang q)) [\<lparr>pose = p1, weight = w\<rparr>, \<lparr>pose = p2, weight = w\<rparr>])
               (weighted_sum (\<lambda>q. cos (ang q)) [\<lparr>pose = p1, weight = w\<rparr>, \<lparr>pose = p2, weight = w\<rparr>])
          = atan2 (w * sin (pi - e) + w * sin (- pi + e)) (w * cos (pi - e) + w * cos (- pi + e))"
    by (simp only: weighted_sum_def list.map sum_list.Cons sum_list.Nil particle.simps
          assms(4,5) add_0_right)
  also have "\<dots> = pi" by (rule atan2_wrap [OF assms(1-3)])
  finally show "atan2 (weighted_sum (\<lambda>q. sin (ang q)) [\<lparr>pose = p1, weight = w\<rparr>, \<lparr>pose = p2, weight = w\<rparr>])
               (weighted_sum (\<lambda>q. cos (ang q)) [\<lparr>pose = p1, weight = w\<rparr>, \<lparr>pose = p2, weight = w\<rparr>])
           = pi" .
  have "weighted_sum ang [\<lparr>pose = p1, weight = w\<rparr>, \<lparr>pose = p2, weight = w\<rparr>]
          = w * (pi - e) + w * (- pi + e)"
    by (simp only: weighted_sum_def list.map sum_list.Cons sum_list.Nil particle.simps
          assms(4,5) add_0_right)
  also have "\<dots> = 0" by (simp add: algebra_simps)
  finally show "weighted_sum ang [\<lparr>pose = p1, weight = w\<rparr>, \<lparr>pose = p2, weight = w\<rparr>] = 0" .
qed

text \<open>
  Claim C6. \<^verbatim>\<open>estimate()\<close> is the weighted sum of x, y and z and, for each angle,
  atan2 of the weighted sum of the sines and the weighted sum of the cosines. For two
  particles of equal positive weight whose angle is \<open>pi - e\<close> and \<open>- pi + e\<close>, with
  \<open>0 \<le> e < pi / 2\<close>, the estimated angle is \<open>pi\<close>, where the linear weighted sum of the
  two angles is 0.
\<close>

theorem weighted_circular_mean:
  assumes "0 \<le> e" and "e < pi / 2" and "0 < w"
    and "particles f = [\<lparr>pose = p1, weight = w\<rparr>, \<lparr>pose = p2, weight = w\<rparr>]"
  shows "estimate g =
     \<lparr>px = weighted_sum px (particles g), py = weighted_sum py (particles g),
      pz = weighted_sum pz (particles g),
      roll = atan2 (weighted_sum (\<lambda>q. sin (roll q)) (particles g))
                   (weighted_sum (\<lambda>q. cos (roll q)) (particles g)),
      pitch = atan2 (weighted_sum (\<lambda>q. sin (pitch q)) (particles g))
                    (weighted_sum (\<lambda>q. cos (pitch q)) (particles g)),
      yaw = atan2 (weighted_sum (\<lambda>q. sin (yaw q)) (particles g))
                  (weighted_sum (\<lambda>q. cos (yaw q)) (particles g))\<rparr>
   \<and> (roll p1 = pi - e \<and> roll p2 = - pi + e \<longrightarrow>
         roll (estimate f) = pi \<and> weighted_sum roll (particles f) = 0)
   \<and> (pitch p1 = pi - e \<and> pitch p2 = - pi + e \<longrightarrow>
         pitch (estimate f) = pi \<and> weighted_sum pitch (particles f) = 0)
   \<and> (yaw p1 = pi - e \<and> yaw p2 = - pi + e \<longrightarrow>
         yaw (estimate f) = pi \<and> weighted_sum yaw (particles f) = 0)"
proof (intro conjI impI)
  show "estimate g =
     \<lparr>px = weighted_sum px (particles g), py = weighted_sum py (particles g),
      pz = weighted_sum pz (particles g),
      roll = atan2 (weighted_sum (\<lambda>q. sin (roll q)) (particles g))
                   (weighted_sum (\<lambda>q. cos (roll q)) (particles g)),
      pitch = atan2 (weighted_sum (\<lambda>q. sin (pitch q)) (particles g))
                    (weighted_sum (\<lambda>q. cos (pitch q)) (particles g)),
      yaw = atan2 (weighted_sum (\<lambda>q. sin (yaw q)) (particles g))
                  (weighted_sum (\<lambda>q. cos (yaw q)) (particles g))\<rparr>"
    by (rule estimate_sums)
next
  assume "roll p1 = pi - e \<and> roll p2 = - pi + e"
  then have h: "roll p1 = pi - e" "roll p2 = - pi + e" by simp_all
  show "roll (estimate f) = pi"
    using wrap_pair(1) [OF assms(1-3) h] by (simp add: estimate_sums assms(4))
  show "weighted_sum roll (particles f) = 0"
    using wrap_pair(2) [OF assms(1-3) h] by (simp add: assms(4))
next
  assume "pitch p1 = pi - e \<and> pitch p2 = - pi + e"
  then have h: "pitch p1 = pi - e" "pitch p2 = - pi + e" by simp_all
  show "pitch (estimate f) = pi"
    using wrap_pair(1) [OF assms(1-3) h] by (simp add: estimate_sums assms(4))
  show "weighted_sum pitch (particles f) = 0"
    using wrap_pair(2) [OF assms(1-3) h] by (simp add: assms(4))
next
  assume "yaw p1 = pi - e \<and> yaw p2 = - pi + e"
  then have h: "yaw p1 = pi - e" "yaw p2 = - pi + e" by simp_all
  show "yaw (estimate f) = pi"
    using wrap_pair(1) [OF assms(1-3) h] by (simp add: estimate_sums assms(4))
  show "weighted_sum yaw (particles f) = 0"
    using wrap_pair(2) [OF assms(1-3) h] by (simp add: assms(4))
qed

theorem weighted_circular_mean_witness:
  "(0 :: real) \<le> 1 / 2 \<and> (1 / 2 :: real) < pi / 2 \<and> (0 :: real) < 1 / 2
   \<and> yaw (zero_pose\<lparr>yaw := pi - 1 / 2\<rparr>) = pi - 1 / 2 \<and> yaw (zero_pose\<lparr>yaw := - pi + 1 / 2\<rparr>) = - pi + 1 / 2
   \<and> yaw (estimate \<lparr>state = Ready,
                       particles = [\<lparr>pose = zero_pose\<lparr>yaw := pi - 1 / 2\<rparr>, weight = 1 / 2\<rparr>,
                                    \<lparr>pose = zero_pose\<lparr>yaw := - pi + 1 / 2\<rparr>, weight = 1 / 2\<rparr>]\<rparr>)
       = pi"
proof -
  let ?f = "\<lparr>state = Ready,
             particles = [\<lparr>pose = zero_pose\<lparr>yaw := pi - 1 / 2\<rparr>, weight = 1 / 2\<rparr>,
                          \<lparr>pose = zero_pose\<lparr>yaw := - pi + 1 / 2\<rparr>, weight = 1 / 2\<rparr>]\<rparr>"
  have h: "(0 :: real) \<le> 1 / 2" "(1 / 2 :: real) < pi / 2" "(0 :: real) < 1 / 2"
    using pi_ge_two by simp_all
  have p: "particles ?f = [\<lparr>pose = zero_pose\<lparr>yaw := pi - 1 / 2\<rparr>, weight = 1 / 2\<rparr>,
                           \<lparr>pose = zero_pose\<lparr>yaw := - pi + 1 / 2\<rparr>, weight = 1 / 2\<rparr>]"
    by simp
  have a: "yaw (zero_pose\<lparr>yaw := pi - 1 / 2\<rparr>) = pi - 1 / 2"
      "yaw (zero_pose\<lparr>yaw := - pi + 1 / 2\<rparr>) = - pi + 1 / 2"
    by simp_all
  from weighted_circular_mean [OF h p, of ?f]
  have "yaw (zero_pose\<lparr>yaw := pi - 1 / 2\<rparr>) = pi - 1 / 2
          \<and> yaw (zero_pose\<lparr>yaw := - pi + 1 / 2\<rparr>) = - pi + 1 / 2
        \<longrightarrow> yaw (estimate ?f) = pi \<and> weighted_sum yaw (particles ?f) = 0"
    by blast
  with a have "yaw (estimate ?f) = pi" by blast
  with h a show ?thesis by blast
qed


subsection \<open>The default population\<close>

lemma collect_Inr: "collect (map (\<lambda>i. Inr (h i)) xs) = Inr (map h xs)"
  by (induction xs) auto

lemma sample_valid:
  "valid_covariance cov \<Longrightarrow> sample cov (variates g i) = Inr (projr (sample cov (variates g i)))"
  by (simp add: sample_def variates_def)

lemma initialize_valid:
  assumes "valid_covariance cov"
  shows "initialize c cov prior g =
     Inr \<lparr>state = Ready,
          particles =
            map (\<lambda>i. \<lparr>pose = add_perturbation prior (projr (sample cov (variates g i))),
                        weight = 1 / real c\<rparr>) [0..<c]\<rparr>"
proof -
  have "(\<lambda>i. draw_particle cov prior (1 / real c) (variates g i)) =
          (\<lambda>i. Inr \<lparr>pose = add_perturbation prior (projr (sample cov (variates g i))),
                      weight = 1 / real c\<rparr>)"
  proof
    fix i
    show "draw_particle cov prior (1 / real c) (variates g i) =
            Inr \<lparr>pose = add_perturbation prior (projr (sample cov (variates g i))),
                 weight = 1 / real c\<rparr>"
      unfolding draw_particle_def by (subst sample_valid [OF assms]) simp
  qed
  then show ?thesis
    using assms by (simp add: initialize_def collect_Inr)
qed

lemma wrap_range: "- pi < wrap a \<and> wrap a \<le> pi"
proof -
  define x where "x = (a - pi) / (2 * pi)"
  have a: "a = 2 * pi * x + pi"
    using pi_gt_zero by (simp add: x_def)
  have 1: "x \<le> of_int \<lceil>x\<rceil>" using ceiling_correct [of x] by simp
  have 2: "of_int \<lceil>x\<rceil> < x + 1" using ceiling_correct [of x] by simp
  have w: "wrap a = 2 * pi * (x - of_int \<lceil>x\<rceil>) + pi"
    unfolding wrap_def x_def [symmetric] by (subst a) (simp add: algebra_simps)
  from 1 have "2 * pi * (x - of_int \<lceil>x\<rceil>) \<le> 0"
    using pi_gt_zero by (simp add: mult_le_0_iff)
  moreover from 2 have "- 1 < x - of_int \<lceil>x\<rceil>" by simp
  then have "2 * pi * (- 1) < 2 * pi * (x - of_int \<lceil>x\<rceil>)"
    using pi_gt_zero by (intro mult_strict_left_mono) simp_all
  ultimately show ?thesis unfolding w by simp
qed

lemma perturbed_normalized: "normalized (add_perturbation p d)"
  by (simp add: normalized_def add_perturbation_def wrap_range)

lemma single_update:
  assumes "state f = Ready" and "particles f = [p]"
  shows "update lik f = Inr (f\<lparr>particles := [p\<lparr>weight := 1\<rparr>]\<rparr>)"
  using assms by (simp add: update_ready unnormalized_def)

lemma single_resample:
  assumes "particles f = [q]" and "weight q = 1"
  shows "maybeResample thr u f = f"
proof -
  have "systematic_resample u [q] = [q]"
    by (simp add: systematic_resample_def positions_def)
  with assms show ?thesis
    by (simp add: maybeResample_def Let_def)
qed

lemma single_estimate:
  assumes "particles f = [q]" and "weight q = 1"
  shows "estimate f =
     \<lparr>px = px (pose q), py = py (pose q), pz = pz (pose q),
      roll = atan2 (sin (roll (pose q))) (cos (roll (pose q))),
      pitch = atan2 (sin (pitch (pose q))) (cos (pitch (pose q))),
      yaw = atan2 (sin (yaw (pose q))) (cos (yaw (pose q)))\<rparr>"
  using assms by (simp add: estimate_sums weighted_sum_def)

lemma single_estimate_normalized:
  assumes "particles f = [q]" and "weight q = 1" and "normalized (pose q)"
  shows "estimate f = pose q"
  using assms(3) by (simp add: single_estimate [OF assms(1,2)] normalized_def atan2_sin_cos)

text \<open>What a filter of one particle does in one update, resampling and estimate.\<close>

lemma single_cycle:
  assumes "state f = Ready" and "particles f = [p]"
  shows "\<exists>f'. update lik f = Inr f'
              \<and> particles f' = [p\<lparr>weight := 1\<rparr>]
              \<and> maybeResample thr u f' = f'
              \<and> px (estimate f') = px (pose p)
              \<and> py (estimate f') = py (pose p)
              \<and> pz (estimate f') = pz (pose p)
              \<and> (- pi < roll (pose p) \<and> roll (pose p) \<le> pi
                    \<longrightarrow> roll (estimate f') = roll (pose p))
              \<and> (- pi < pitch (pose p) \<and> pitch (pose p) \<le> pi
                    \<longrightarrow> pitch (estimate f') = pitch (pose p))
              \<and> (- pi < yaw (pose p) \<and> yaw (pose p) \<le> pi
                    \<longrightarrow> yaw (estimate f') = yaw (pose p))
              \<and> (normalized (pose p) \<longrightarrow> estimate f' = pose p)"
proof -
  let ?f' = "f\<lparr>particles := [p\<lparr>weight := 1\<rparr>]\<rparr>"
  have u: "update lik f = Inr ?f'"
    by (rule single_update [OF assms])
  have ps: "particles ?f' = [p\<lparr>weight := 1\<rparr>]" and w: "weight (p\<lparr>weight := 1\<rparr>) = 1"
    by simp_all
  have r: "maybeResample thr u ?f' = ?f'"
    by (rule single_resample [OF ps w])
  have e: "estimate ?f' =
     \<lparr>px = px (pose p), py = py (pose p), pz = pz (pose p),
      roll = atan2 (sin (roll (pose p))) (cos (roll (pose p))),
      pitch = atan2 (sin (pitch (pose p))) (cos (pitch (pose p))),
      yaw = atan2 (sin (yaw (pose p))) (cos (yaw (pose p)))\<rparr>"
    using single_estimate [OF ps w] by simp
  have n: "normalized (pose p) \<longrightarrow> estimate ?f' = pose p"
    using single_estimate_normalized [OF ps w] by simp
  have "px (estimate ?f') = px (pose p) \<and> py (estimate ?f') = py (pose p)
          \<and> pz (estimate ?f') = pz (pose p)
          \<and> (- pi < roll (pose p) \<and> roll (pose p) \<le> pi
                \<longrightarrow> roll (estimate ?f') = roll (pose p))
          \<and> (- pi < pitch (pose p) \<and> pitch (pose p) \<le> pi
                \<longrightarrow> pitch (estimate ?f') = pitch (pose p))
          \<and> (- pi < yaw (pose p) \<and> yaw (pose p) \<le> pi
                \<longrightarrow> yaw (estimate ?f') = yaw (pose p))"
    by (simp add: e atan2_sin_cos)
  with u ps r n show ?thesis by blast
qed

text \<open>The filter that the default launch configuration starts.\<close>

lemma default_filter:
  assumes "roslaunch auv_pf_launch Map.empty = Some [n]"
  shows "start_filter n prior g =
           Inr \<lparr>state = Ready,
                particles = [\<lparr>pose = add_perturbation prior zero_pose, weight = 1\<rparr>]\<rparr>"
proof -
  from assms have ps: "sn_params n =
      the (start_params (the (resolve_args Map.empty [] (args auv_pf_launch))) quiet_params)"
    by (auto simp: default_launch)
  have v: "valid_covariance [0, 0, 0, 0, 0, 0]"
    by (simp add: valid_covariance_def)
  have z: "projr (sample [0, 0, 0, 0, 0, 0] (variates g 0)) = zero_pose"
    by (simp add: sample_def valid_covariance_def variates_def zero_pose_def)
  have "start_filter n prior g = initialize 1 [0, 0, 0, 0, 0, 0] prior g"
    by (simp add: start_filter_def default_delivered [OF ps] parse_default_scalars
          parse_default_covariances)
  also have "\<dots> = Inr \<lparr>state = Ready,
                particles = [\<lparr>pose = add_perturbation prior zero_pose, weight = 1\<rparr>]\<rparr>"
    by (simp add: initialize_valid [OF v] z)
  finally show ?thesis .
qed

text \<open>
  Claim C9. The launch file declares \<^verbatim>\<open>particle_count\<close> with the default \<^verbatim>\<open>1\<close> and,
  with no argument given, delivers it to the node as the integer 1. The filter that is
  initialised from the delivered parameters, for every prior pose and every draw of the
  random source, is Ready with a population of exactly one particle, of weight 1. On it
  \<^verbatim>\<open>update\<close> gives the particle weight 1 whatever the likelihood, \<^verbatim>\<open>maybeResample\<close>
  then changes nothing, whatever the threshold and the offset, and \<^verbatim>\<open>estimate\<close>
  returns the pose of the particle. In general \<^verbatim>\<open>initialize\<close> with a well-formed
  covariance yields as many particles as \<^verbatim>\<open>particleCount\<close>, and every Ready filter of
  one particle behaves in this way.
\<close>

theorem default_single_particle:
  "map_of (map (\<lambda>a. (arg_name a, arg_default a)) (args auv_pf_launch)) ''particle_count''
     = Some [Lit ''1'']
   \<and> (\<exists>n f q. roslaunch auv_pf_launch Map.empty = Some [n]
          \<and> Option.bind (delivered n ''particle_count'') parse_nat = Some 1
          \<and> map_of (map (\<lambda>q. (sp_name q, sp_type q)) (sn_params n)) ''particle_count''
               = Some (Some ''int'')
          \<and> start_filter n prior g = Inr f
          \<and> state f = Ready
          \<and> particles f = [q]
          \<and> weight q = 1
          \<and> (\<exists>f'. update lik f = Inr f'
                 \<and> weights f' = [1]
                 \<and> map pose (particles f') = [pose q]
                 \<and> maybeResample thr u f' = f'
                 \<and> estimate f' = pose q))
   \<and> (\<forall>c cov. valid_covariance cov \<longrightarrow>
         (\<exists>f. initialize c cov prior g = Inr f \<and> state f = Ready
               \<and> length (particles f) = c))
   \<and> (\<forall>f p. state f = Ready \<and> particles f = [p] \<longrightarrow>
         (\<exists>f'. update lik f = Inr f'
              \<and> particles f' = [p\<lparr>weight := 1\<rparr>]
              \<and> maybeResample thr u f' = f'
              \<and> px (estimate f') = px (pose p)
              \<and> py (estimate f') = py (pose p)
              \<and> pz (estimate f') = pz (pose p)
              \<and> (- pi < roll (pose p) \<and> roll (pose p) \<le> pi
                    \<longrightarrow> roll (estimate f') = roll (pose p))
              \<and> (- pi < pitch (pose p) \<and> pitch (pose p) \<le> pi
                    \<longrightarrow> pitch (estimate f') = pitch (pose p))
              \<and> (- pi < yaw (pose p) \<and> yaw (pose p) \<le> pi
                    \<longrightarrow> yaw (estimate f') = yaw (pose p))))"
proof (intro conjI allI impI)
  show "map_of (map (\<lambda>a. (arg_name a, arg_default a)) (args auv_pf_launch)) ''particle_count''
          = Some [Lit ''1'']"
    by (simp add: auv_pf_launch_def)
next
  let ?ps = "the (start_params (the (resolve_args Map.empty [] (args auv_pf_launch)))
                    quiet_params)"
  let ?n = "\<lparr>sn_type = ''auv_pf.py'', sn_pkg = ''auv_particle_filter'', sn_name = ''auv_pf'',
             sn_output = ''screen'', sn_params = ?ps\<rparr>"
  let ?q = "\<lparr>pose = add_perturbation prior zero_pose, weight = 1\<rparr>"
  let ?f = "\<lparr>state = Ready, particles = [?q]\<rparr>"
  have l: "roslaunch auv_pf_launch Map.empty = Some [?n]"
    by (rule default_launch)
  have c: "Option.bind (delivered ?n ''particle_count'') parse_nat = Some 1"
    by (simp add: default_delivered parse_default_scalars)
  have t: "map_of (map (\<lambda>q. (sp_name q, sp_type q)) (sn_params ?n)) ''particle_count''
             = Some (Some ''int'')"
    by (simp add: launch_params)
  have s: "start_filter ?n prior g = Inr ?f"
    by (rule default_filter [OF l])
  have st: "state ?f = Ready" and ps: "particles ?f = [?q]" and w: "weight ?q = 1"
    by simp_all
  have nq: "normalized (pose ?q)"
    by (simp add: perturbed_normalized)
  from single_cycle [OF st ps, of lik thr u] nq w
  obtain f' where f': "update lik ?f = Inr f'" "particles f' = [?q]"
      "maybeResample thr u f' = f'" "estimate f' = pose ?q"
    by auto
  from f'(2) have "weights f' = [1]" "map pose (particles f') = [pose ?q]"
    by (simp_all add: weights_def)
  with f' have e: "\<exists>f'. update lik ?f = Inr f' \<and> weights f' = [1]
                 \<and> map pose (particles f') = [pose ?q]
                 \<and> maybeResample thr u f' = f' \<and> estimate f' = pose ?q"
    by (intro exI [of _ f']) simp
  show "\<exists>n f q. roslaunch auv_pf_launch Map.empty = Some [n]
          \<and> Option.bind (delivered n ''particle_count'') parse_nat = Some 1
          \<and> map_of (map (\<lambda>q. (sp_name q, sp_type q)) (sn_params n)) ''particle_count''
               = Some (Some ''int'')
          \<and> start_filter n prior g = Inr f
          \<and> state f = Ready
          \<and> particles f = [q]
          \<and> weight q = 1
          \<and> (\<exists>f'. update lik f = Inr f'
                 \<and> weights f' = [1]
                 \<and> map pose (particles f') = [pose q]
                 \<and> maybeResample thr u f' = f'
                 \<and> estimate f' = pose q)"
    by (rule exI [of _ ?n], rule exI [of _ ?f], rule exI [of _ ?q])
       (intro conjI l c t s st ps w e)
next
  fix c cov
  assume "valid_covariance cov"
  then show "\<exists>f. initialize c cov prior g = Inr f \<and> state f = Ready
               \<and> length (particles f) = c"
    by (simp add: initialize_valid)
next
  fix f :: particle_filter and p :: particle
  assume "state f = Ready \<and> particles f = [p]"
  then have "state f = Ready" "particles f = [p]" by simp_all
  from single_cycle [OF this, of lik thr u]
  show "\<exists>f'. update lik f = Inr f'
              \<and> particles f' = [p\<lparr>weight := 1\<rparr>]
              \<and> maybeResample thr u f' = f'
              \<and> px (estimate f') = px (pose p)
              \<and> py (estimate f') = py (pose p)
              \<and> pz (estimate f') = pz (pose p)
              \<and> (- pi < roll (pose p) \<and> roll (pose p) \<le> pi
                    \<longrightarrow> roll (estimate f') = roll (pose p))
              \<and> (- pi < pitch (pose p) \<and> pitch (pose p) \<le> pi
                    \<longrightarrow> pitch (estimate f') = pitch (pose p))
              \<and> (- pi < yaw (pose p) \<and> yaw (pose p) \<le> pi
                    \<longrightarrow> yaw (estimate f') = yaw (pose p))"
    by blast
qed

theorem default_single_particle_witness:
  "valid_covariance [1, 4, 0, 0, 0, 1]
   \<and> (\<exists>f. initialize 3 [1, 4, 0, 0, 0, 1] zero_pose (\<lambda>i k. 1) = Inr f
          \<and> length (particles f) = 3)
   \<and> state \<lparr>state = Ready, particles = [\<lparr>pose = zero_pose\<lparr>px := 3, yaw := pi\<rparr>, weight = 0\<rparr>]\<rparr>
        = Ready
   \<and> - pi < yaw (zero_pose\<lparr>px := 3, yaw := pi\<rparr>) \<and> yaw (zero_pose\<lparr>px := 3, yaw := pi\<rparr>) \<le> pi
   \<and> (\<exists>f'. update (\<lambda>q. 0)
               \<lparr>state = Ready,
                particles = [\<lparr>pose = zero_pose\<lparr>px := 3, yaw := pi\<rparr>, weight = 0\<rparr>]\<rparr> = Inr f'
          \<and> weights f' = [1]
          \<and> maybeResample 1 (1 / 2) f' = f'
          \<and> px (estimate f') = 3
          \<and> yaw (estimate f') = pi)"
proof -
  let ?p = "\<lparr>pose = zero_pose\<lparr>px := 3, yaw := pi\<rparr>, weight = 0\<rparr>"
  let ?f = "\<lparr>state = Ready, particles = [?p]\<rparr>"
  note t = default_single_particle [of zero_pose "\<lambda>i k. 1" "\<lambda>q. 0" 1 "1 / 2"]
  have v: "valid_covariance [1, 4, 0, 0, 0, 1]"
    by (simp add: valid_covariance_def)
  from t v have i: "\<exists>f. initialize 3 [1, 4, 0, 0, 0, 1] zero_pose (\<lambda>i k. 1) = Inr f
          \<and> length (particles f) = 3"
    by blast
  have h: "state ?f = Ready \<and> particles ?f = [?p]" by simp
  have a: "- pi < yaw (pose ?p) \<and> yaw (pose ?p) \<le> pi" by simp
  from t h
  obtain f' where f': "update (\<lambda>q. 0) ?f = Inr f'" "particles f' = [?p\<lparr>weight := 1\<rparr>]"
      "maybeResample 1 (1 / 2) f' = f'" "px (estimate f') = px (pose ?p)"
      "- pi < yaw (pose ?p) \<and> yaw (pose ?p) \<le> pi \<longrightarrow> yaw (estimate f') = yaw (pose ?p)"
    by blast
  from f'(5) a have y: "yaw (estimate f') = pi" by simp
  from f'(2) have ws: "weights f' = [1]" by (simp add: weights_def)
  from f'(4) have x: "px (estimate f') = 3" by simp
  from f'(1,3) ws x y have e: "\<exists>f'. update (\<lambda>q. 0) ?f = Inr f' \<and> weights f' = [1]
          \<and> maybeResample 1 (1 / 2) f' = f' \<and> px (estimate f') = 3 \<and> yaw (estimate f') = pi"
    by blast
  from v i h a e show ?thesis by simp
qed


end
